theory Spec2Isabelle
  imports Main "HOL-Library.Word"
begin

section \<open>Capture routes of the Owl server (\<^verbatim>\<open>untitledai/server/routes/capture.py\<close>)\<close>

text \<open>
  The routes are embedded as state transformers on the application state. Every call
  to a collaborator that lives outside \<^verbatim>\<open>capture.py\<close> (file system, services, the
  classes \<^verbatim>\<open>CaptureFile\<close>, \<^verbatim>\<open>ConversationDetectionService\<close>,
  \<^verbatim>\<open>StreamingCaptureHandler\<close>) goes through a field of the record \<open>externals\<close>: an
  arbitrary function of its arguments and of the state \<open>'w\<close> of the outside world,
  returning its outcome and the next state of the world. Each such call is also written
  to a trace, so that theorems can speak about which calls a route makes and in which
  order. Exceptions are values: a route returns \<open>Inl e\<close> when the Python raises \<open>e\<close>.
\<close>

subsection \<open>Data\<close>

type_synonym bytes = "8 word list"

text \<open>
  Exceptions (subclasses of Python's \<^verbatim>\<open>Exception\<close>). \<open>HTTPException status detail\<close>
  is FastAPI's; the detail is either a literal message or \<^verbatim>\<open>str(e)\<close> of a caught
  exception.
\<close>

datatype exn =
    ValueError
  | TypeError
  | AssertionError
  | KeyError
  | ClientDisconnect
  | HTTPException nat detail
  | External_error string
and detail =
    Message string
  | Str_of exn

text \<open>\<^verbatim>\<open>JSONResponse(content={"message": m})\<close>, status 200.\<close>

datatype response = JSONResponse string

text \<open>The attributes of \<^verbatim>\<open>CaptureFile\<close> and of a segment file that the routes read.\<close>

record capture_file =
  filepath :: string
  file_timestamp :: string
  device_type_value :: string

record segment_file =
  segment_filepath :: string

text \<open>A detected conversation: \<^verbatim>\<open>convo.uuid\<close>, \<^verbatim>\<open>convo.endpoints.start\<close>, \<^verbatim>\<open>convo.endpoints.end\<close>.\<close>

record conversation =
  uuid :: string
  endpoints_start :: int
  endpoints_end :: int

record detection_results =
  completed :: "conversation list"
  in_progress :: "conversation option"

record conversation_progress =
  conversation_uuid :: string
  in_conversation :: bool
  start_time :: int
  end_time :: int
  progress_device_type :: string

text \<open>\<^verbatim>\<open>ProcessAudioChunkTask\<close>: the four attributes set by \<^verbatim>\<open>__init__\<close>.\<close>

record 'ds task =
  task_capture_file :: capture_file
  task_detection_service :: 'ds
  task_audio_data :: "bytes option"
  task_format :: string

text \<open>
  Modelled from the spec: the class \<^verbatim>\<open>StreamingCaptureHandler\<close>, which is not in
  \<^verbatim>\<open>capture.py\<close>. A handler is represented by what it needs to build the tasks that
  the specification describes: "a reference to the Frame Store, the Detector, the new
  bytes (or none, to signal completion), and the audio format".
\<close>

record 'ds streaming_capture_handler =
  handler_capture_file :: capture_file
  handler_detection_service :: 'ds
  handler_file_extension :: string

text \<open>The trace: calls to collaborators and log lines, in program order.\<close>

datatype 'ds event =
    Log_info string
  | Log_error string
  | Log_error_exn string exn
  | Log_bytes_appended string nat
  | Print_exc
  | Call_new_capture_file string string string string string
  | Call_new_detection_service string string
  | Call_new_streaming_capture_handler string string string
  | Call_append_to_wav_file string bytes nat
  | Call_write_append string bytes
  | Call_detect_conversations 'ds "bytes option" string bool
  | Call_create_conversation_segment capture_file string int string
  | Call_extract_conversations 'ds "conversation list" "string list"
  | Call_process_conversation_from_audio capture_file segment_file string string
  | Call_send_notification string string string conversation_progress

text \<open>
  \<^verbatim>\<open>AppState\<close>: the configuration values the routes read, the three dictionaries,
  the task queue, the trace and the state of the outside world.
\<close>

record ('ds, 'w) app_state =
  capture_dir :: string
  voice_sample_filepath :: string
  user_name :: string
  capture_handlers :: "string \<rightharpoonup> 'ds streaming_capture_handler"
  capture_files_by_id :: "string \<rightharpoonup> capture_file"
  conversation_detection_service_by_id :: "string \<rightharpoonup> 'ds"
  task_queue :: "'ds task list"
  trace :: "'ds event list"
  world :: 'w

text \<open>
  The collaborators. A constructor or call that can raise returns \<open>Inl e\<close> (or
  \<open>Some e\<close> when it has no result).
\<close>

record ('ds, 'w) externals =
  glob :: "string \<Rightarrow> 'w \<Rightarrow> string list"
  get_capture_uuid :: "string \<Rightarrow> string option"
  from_filepath :: "string option \<Rightarrow> exn + capture_file option"
  new_capture_file ::
    "string \<Rightarrow> string \<Rightarrow> string \<Rightarrow> string \<Rightarrow> string \<Rightarrow> 'w \<Rightarrow> (exn + capture_file) \<times> 'w"
  new_detection_service :: "string \<Rightarrow> string \<Rightarrow> 'w \<Rightarrow> (exn + 'ds) \<times> 'w"
  new_streaming_capture_handler ::
    "string \<Rightarrow> string \<Rightarrow> string \<Rightarrow> 'w \<Rightarrow> (exn + 'ds streaming_capture_handler) \<times> 'w"
  append_to_wav_file :: "string \<Rightarrow> bytes \<Rightarrow> nat \<Rightarrow> 'w \<Rightarrow> (exn + nat) \<times> 'w"
  write_append :: "string \<Rightarrow> bytes \<Rightarrow> 'w \<Rightarrow> (exn + nat) \<times> 'w"
  detect_conversations ::
    "'ds \<Rightarrow> bytes option \<Rightarrow> string \<Rightarrow> bool \<Rightarrow> 'w \<Rightarrow> (exn + detection_results) \<times> 'w"
  create_conversation_segment ::
    "capture_file \<Rightarrow> string \<Rightarrow> int \<Rightarrow> string \<Rightarrow> 'w \<Rightarrow> (exn + segment_file) \<times> 'w"
  extract_conversations ::
    "'ds \<Rightarrow> conversation list \<Rightarrow> string list \<Rightarrow> 'w \<Rightarrow> exn option \<times> 'w"
  process_conversation_from_audio ::
    "capture_file \<Rightarrow> segment_file \<Rightarrow> string \<Rightarrow> string \<Rightarrow> 'w \<Rightarrow> exn option \<times> 'w"
  send_notification ::
    "string \<Rightarrow> string \<Rightarrow> string \<Rightarrow> conversation_progress \<Rightarrow> 'w \<Rightarrow> exn option \<times> 'w"

subsection \<open>Threading the trace and the world\<close>

definition log :: "'ds event \<Rightarrow> ('ds, 'w) app_state \<Rightarrow> ('ds, 'w) app_state" where
  "log ev st = st\<lparr>trace := trace st @ [ev]\<rparr>"

text \<open>A call to a collaborator: the call is traced, the world moves on.\<close>

definition call_ext ::
  "'ds event \<Rightarrow> ('w \<Rightarrow> 'r \<times> 'w) \<Rightarrow> ('ds, 'w) app_state \<Rightarrow> 'r \<times> ('ds, 'w) app_state" where
  "call_ext ev f st =
     (case f (world st) of (r, w') \<Rightarrow> (r, st\<lparr>trace := trace st @ [ev], world := w'\<rparr>))"

subsection \<open>Library functions of Python used by the routes\<close>

text \<open>\<^verbatim>\<open>list.index(x)\<close>: the first position of \<open>x\<close>, \<^verbatim>\<open>ValueError\<close> when there is none.\<close>

fun list_index :: "'a list \<Rightarrow> 'a \<Rightarrow> exn + int" where
  "list_index [] x = Inl ValueError"
| "list_index (y # ys) x =
     (if y = x then Inr 0
      else (case list_index ys x of Inl e \<Rightarrow> Inl e | Inr i \<Rightarrow> Inr (i + 1)))"

text \<open>\<^verbatim>\<open>os.path.join(a, b)\<close> (posixpath, two arguments).\<close>

definition os_path_join :: "string \<Rightarrow> string \<Rightarrow> string" where
  "os_path_join a b =
     (if b \<noteq> [] \<and> hd b = CHR ''/'' then b
      else if a = [] \<or> last a = CHR ''/'' then a @ b
      else a @ ''/'' @ b)"

subsection \<open>\<^verbatim>\<open>find_audio_filepath\<close>\<close>

definition find_audio_filepath ::
  "('ds, 'w) externals \<Rightarrow> 'w \<Rightarrow> string \<Rightarrow> string \<Rightarrow> exn + string option" where
  "find_audio_filepath ext w audio_directory capture_uuid =
     (let filepaths = glob ext (os_path_join audio_directory ''*/*/*'') w;
          capture_uuids = map (get_capture_uuid ext) filepaths
      in case list_index capture_uuids (Some capture_uuid) of
           Inl e \<Rightarrow> Inl e
         | Inr file_idx \<Rightarrow>
             if file_idx < 0 then Inr None
             else Inr (Some (filepaths ! nat file_idx)))"

subsection \<open>File extensions\<close>

text \<open>\<^verbatim>\<open>p.rfind(c)\<close>: the last position of the character, \<open>-1\<close> when there is none.\<close>

fun rfind_from :: "char \<Rightarrow> string \<Rightarrow> int \<Rightarrow> int \<Rightarrow> int" where
  "rfind_from c [] i found = found"
| "rfind_from c (x # xs) i found = rfind_from c xs (i + 1) (if x = c then i else found)"

definition rfind :: "string \<Rightarrow> char \<Rightarrow> int" where
  "rfind p c = rfind_from c p 0 (- 1)"

text \<open>
  The loop of \<^verbatim>\<open>genericpath._splitext\<close> that skips leading dots: true when some
  character at a position in \<open>[filenameIndex, dotIndex)\<close> is not a dot.
\<close>

function splitext_loop :: "string \<Rightarrow> nat \<Rightarrow> nat \<Rightarrow> bool" where
  "splitext_loop p filenameIndex dotIndex =
     (if filenameIndex < dotIndex then
        (if take 1 (drop filenameIndex p) \<noteq> ''.'' then True
         else splitext_loop p (filenameIndex + 1) dotIndex)
      else False)"
  by pat_completeness auto
termination
  by (relation "measure (\<lambda>(p, filenameIndex, dotIndex). dotIndex - filenameIndex)") auto

declare splitext_loop.simps [simp del]

text \<open>\<^verbatim>\<open>os.path.splitext(p)\<close> (posixpath): root and extension.\<close>

definition splitext :: "string \<Rightarrow> string \<times> string" where
  "splitext p =
     (let sepIndex = rfind p CHR ''/'';
          dotIndex = rfind p CHR ''.''
      in if dotIndex > sepIndex \<and> splitext_loop p (nat (sepIndex + 1)) (nat dotIndex)
         then (take (nat dotIndex) p, drop (nat dotIndex) p)
         else (p, []))"

text \<open>\<^verbatim>\<open>s.lstrip(".")\<close>.\<close>

definition lstrip_dot :: "string \<Rightarrow> string" where
  "lstrip_dot s = dropWhile (\<lambda>c. c = CHR ''.'') s"

text \<open>
  \<^verbatim>\<open>os.path.splitext(name)[1].lstrip(".")\<close>. The name of an upload is optional
  (\<^verbatim>\<open>UploadFile.filename\<close>); \<^verbatim>\<open>splitext(None)\<close> raises \<^verbatim>\<open>TypeError\<close>.
\<close>

definition file_extension_of :: "string option \<Rightarrow> exn + string" where
  "file_extension_of filename =
     (case filename of
        None \<Rightarrow> Inl TypeError
      | Some name \<Rightarrow> Inr (lstrip_dot (snd (splitext name))))"

subsection \<open>The processing task\<close>

definition supported_upload_file_extensions :: "string set" where
  "supported_upload_file_extensions = {''pcm'', ''wav'', ''aac''}"

text \<open>\<^verbatim>\<open>ProcessAudioChunkTask.__init__\<close>, with its assertion on the format.\<close>

definition ProcessAudioChunkTask ::
  "capture_file \<Rightarrow> 'ds \<Rightarrow> string \<Rightarrow> bytes option \<Rightarrow> exn + 'ds task" where
  "ProcessAudioChunkTask capture_file detection_service format audio_data =
     (if format = ''wav'' \<or> format = ''aac'' then
        Inr \<lparr>task_capture_file = capture_file,
             task_detection_service = detection_service,
             task_audio_data = audio_data,
             task_format = format\<rparr>
      else Inl AssertionError)"

text \<open>\<^verbatim>\<open>app_state.task_queue.put(task)\<close>.\<close>

definition task_queue_put :: "'ds task \<Rightarrow> ('ds, 'w) app_state \<Rightarrow> ('ds, 'w) app_state" where
  "task_queue_put t st = st\<lparr>task_queue := task_queue st @ [t]\<rparr>"

subsection \<open>\<^verbatim>\<open>upload_chunk\<close>\<close>

text \<open>
  "Look up capture session or create a new one": the capture file and the detection
  service of the upload. A new capture file is registered before its detection service
  is constructed, so a failing service constructor leaves the file entry behind.
\<close>

definition lookup_or_create_session ::
  "('ds, 'w) externals \<Rightarrow> string \<Rightarrow> string \<Rightarrow> string \<Rightarrow> string \<Rightarrow> ('ds, 'w) app_state \<Rightarrow>
     (exn + capture_file \<times> 'ds) \<times> ('ds, 'w) app_state" where
  "lookup_or_create_session ext capture_uuid timestamp device_type file_extension st =
     (case capture_files_by_id st capture_uuid of
        Some capture_file \<Rightarrow>
          (case conversation_detection_service_by_id st capture_uuid of
             None \<Rightarrow>
               (Inl (HTTPException 500 (Message ''Internal error: Lost conversation service'')),
                log (Log_error (''Internal error: No conversation detection service exists for capture_uuid='' @ capture_uuid)) st)
           | Some detection_service \<Rightarrow> (Inr (capture_file, detection_service), st))
      | None \<Rightarrow>
          (case call_ext (Call_new_capture_file (capture_dir st) capture_uuid device_type timestamp file_extension)
                  (new_capture_file ext (capture_dir st) capture_uuid device_type timestamp file_extension) st of
             (Inl e, st1) \<Rightarrow> (Inl e, st1)
           | (Inr capture_file, st1) \<Rightarrow>
               (let st2 = st1\<lparr>capture_files_by_id := (capture_files_by_id st1)(capture_uuid \<mapsto> capture_file)\<rparr>
                in case call_ext (Call_new_detection_service (filepath capture_file) (file_timestamp capture_file))
                          (new_detection_service ext (filepath capture_file) (file_timestamp capture_file)) st2 of
                     (Inl e, st3) \<Rightarrow> (Inl e, st3)
                   | (Inr detection_service, st3) \<Rightarrow>
                       (Inr (capture_file, detection_service),
                        st3\<lparr>conversation_detection_service_by_id :=
                              (conversation_detection_service_by_id st3)(capture_uuid \<mapsto> detection_service)\<rparr>))))"

text \<open>
  "Append to file": through \<^verbatim>\<open>append_to_wav_file\<close> at 16000 Hz when
  \<open>write_wav_header\<close> is set, by a plain write in append mode otherwise.
\<close>

definition append_to_file ::
  "('ds, 'w) externals \<Rightarrow> bool \<Rightarrow> capture_file \<Rightarrow> bytes \<Rightarrow> ('ds, 'w) app_state \<Rightarrow>
     (exn + nat) \<times> ('ds, 'w) app_state" where
  "append_to_file ext write_wav_header capture_file content st =
     (if write_wav_header then
        call_ext (Call_append_to_wav_file (filepath capture_file) content 16000)
          (append_to_wav_file ext (filepath capture_file) content 16000) st
      else
        call_ext (Call_write_append (filepath capture_file) content)
          (write_append ext (filepath capture_file) content) st)"

text \<open>The body of the \<^verbatim>\<open>try\<close> block of \<^verbatim>\<open>upload_chunk\<close>; \<open>content\<close> is what \<^verbatim>\<open>file.read()\<close> returns.\<close>

definition upload_chunk_body ::
  "('ds, 'w) externals \<Rightarrow> string option \<Rightarrow> bytes \<Rightarrow> string \<Rightarrow> string \<Rightarrow> string \<Rightarrow>
     ('ds, 'w) app_state \<Rightarrow> (exn + response) \<times> ('ds, 'w) app_state" where
  "upload_chunk_body ext filename content capture_uuid timestamp device_type st =
     (case file_extension_of filename of
        Inl e \<Rightarrow> (Inl e, st)
      | Inr uploaded_extension \<Rightarrow>
          if uploaded_extension \<notin> supported_upload_file_extensions then
            (Inr (JSONResponse (''Failed to process because file extension is unsupported: '' @ uploaded_extension)), st)
          else
            (let write_wav_header = (uploaded_extension = ''pcm'');
                 file_extension = (if uploaded_extension = ''pcm'' then ''wav'' else uploaded_extension)
             in case lookup_or_create_session ext capture_uuid timestamp device_type file_extension st of
                  (Inl e, st1) \<Rightarrow> (Inl e, st1)
                | (Inr (capture_file, detection_service), st1) \<Rightarrow>
                    (case append_to_file ext write_wav_header capture_file content st1 of
                       (Inl e, st2) \<Rightarrow> (Inl e, st2)
                     | (Inr bytes_written, st2) \<Rightarrow>
                         (let st3 = log (Log_bytes_appended (filepath capture_file) bytes_written) st2
                          in case ProcessAudioChunkTask capture_file detection_service file_extension (Some content) of
                               Inl e \<Rightarrow> (Inl e, st3)
                             | Inr task \<Rightarrow>
                                 (Inr (JSONResponse ''Audio processed''), task_queue_put task st3)))))"

text \<open>
  The \<^verbatim>\<open>except Exception\<close> clause shared by \<^verbatim>\<open>upload_chunk\<close> and
  \<^verbatim>\<open>process_capture\<close>: log, print the traceback, raise status 500 with \<^verbatim>\<open>str(e)\<close>.
\<close>

definition except_to_500 ::
  "string \<Rightarrow> (exn + response) \<times> ('ds, 'w) app_state \<Rightarrow> (exn + response) \<times> ('ds, 'w) app_state" where
  "except_to_500 prefix outcome =
     (case outcome of
        (Inl e, st) \<Rightarrow> (Inl (HTTPException 500 (Str_of e)), log Print_exc (log (Log_error_exn prefix e) st))
      | (Inr r, st) \<Rightarrow> (Inr r, st))"

definition upload_chunk ::
  "('ds, 'w) externals \<Rightarrow> string option \<Rightarrow> bytes \<Rightarrow> string \<Rightarrow> string \<Rightarrow> string \<Rightarrow>
     ('ds, 'w) app_state \<Rightarrow> (exn + response) \<times> ('ds, 'w) app_state" where
  "upload_chunk ext filename content capture_uuid timestamp device_type st =
     except_to_500 ''Failed to upload chunk''
       (upload_chunk_body ext filename content capture_uuid timestamp device_type st)"

subsection \<open>\<^verbatim>\<open>process_capture\<close>\<close>

text \<open>How an f-string prints an optional path.\<close>

definition str_of_filepath :: "string option \<Rightarrow> string" where
  "str_of_filepath found = (case found of None \<Rightarrow> ''None'' | Some p \<Rightarrow> p)"

text \<open>
  The body of the \<^verbatim>\<open>try\<close> block of \<^verbatim>\<open>process_capture\<close>. The second
  \<^verbatim>\<open>raise\<close> spells its keyword \<^verbatim>\<open>status_Code\<close>, so constructing the
  \<^verbatim>\<open>HTTPException\<close> itself raises \<^verbatim>\<open>TypeError\<close>.
\<close>

definition process_capture_body ::
  "('ds, 'w) externals \<Rightarrow> string \<Rightarrow> ('ds, 'w) app_state \<Rightarrow> (exn + response) \<times> ('ds, 'w) app_state" where
  "process_capture_body ext capture_uuid st =
     (case find_audio_filepath ext (world st) (capture_dir st) capture_uuid of
        Inl e \<Rightarrow> (Inl e, st)
      | Inr found \<Rightarrow>
          (let st1 = log (Log_info (''Found file to process: '' @ str_of_filepath found)) st
           in case from_filepath ext found of
                Inl e \<Rightarrow> (Inl e, st1)
              | Inr None \<Rightarrow>
                  (Inl (HTTPException 500 (Message ''Internal error: File is incorrectly named on server'')),
                   log (Log_error (''Filepath does not conform to expected format and cannot be processed: '' @ str_of_filepath found)) st1)
              | Inr (Some capture_file) \<Rightarrow>
                  (case conversation_detection_service_by_id st1 capture_uuid of
                     None \<Rightarrow>
                       (Inl TypeError,
                        log (Log_error (''Internal error: No conversation detection service exists for capture_uuid='' @ capture_uuid)) st1)
                   | Some detection_service \<Rightarrow>
                       (case ProcessAudioChunkTask capture_file detection_service
                               (lstrip_dot (snd (splitext (filepath capture_file)))) None of
                          Inl e \<Rightarrow> (Inl e, st1)
                        | Inr task \<Rightarrow>
                            (let st2 = task_queue_put task st1;
                                 st3 = (if capture_uuid \<in> dom (capture_files_by_id st2)
                                        then st2\<lparr>capture_files_by_id := (capture_files_by_id st2)(capture_uuid := None)\<rparr>
                                        else st2);
                                 st4 = (if capture_uuid \<in> dom (conversation_detection_service_by_id st3)
                                        then st3\<lparr>conversation_detection_service_by_id :=
                                                   (conversation_detection_service_by_id st3)(capture_uuid := None)\<rparr>
                                        else st3)
                             in (Inr (JSONResponse ''Conversation processed''), st4))))))"

definition process_capture ::
  "('ds, 'w) externals \<Rightarrow> string \<Rightarrow> ('ds, 'w) app_state \<Rightarrow> (exn + response) \<times> ('ds, 'w) app_state" where
  "process_capture ext capture_uuid st =
     except_to_500 ''Failed to process'' (process_capture_body ext capture_uuid st)"

subsection \<open>\<^verbatim>\<open>ProcessAudioChunkTask.run\<close>\<close>

text \<open>"Create conversation segment files": one segment file per completed conversation.\<close>

fun create_segment_files ::
  "('ds, 'w) externals \<Rightarrow> capture_file \<Rightarrow> string \<Rightarrow> conversation list \<Rightarrow>
     string list \<times> segment_file list \<Rightarrow> ('ds, 'w) app_state \<Rightarrow>
     (exn + string list \<times> segment_file list) \<times> ('ds, 'w) app_state" where
  "create_segment_files ext capture_file format [] acc st = (Inr acc, st)"
| "create_segment_files ext capture_file format (convo # convos) (convo_filepaths, segment_files) st =
     (case call_ext (Call_create_conversation_segment capture_file (uuid convo) (endpoints_start convo) format)
             (create_conversation_segment ext capture_file (uuid convo) (endpoints_start convo) format) st of
        (Inl e, st1) \<Rightarrow> (Inl e, st1)
      | (Inr segment_file, st1) \<Rightarrow>
          create_segment_files ext capture_file format convos
            (convo_filepaths @ [segment_filepath segment_file], segment_files @ [segment_file]) st1)"

text \<open>
  The loop inside the \<^verbatim>\<open>try\<close> of "Process each completed conversation": it ends at
  the first call that raises.
\<close>

fun process_segment_files ::
  "('ds, 'w) externals \<Rightarrow> capture_file \<Rightarrow> segment_file list \<Rightarrow> ('ds, 'w) app_state \<Rightarrow>
     exn option \<times> ('ds, 'w) app_state" where
  "process_segment_files ext capture_file [] st = (None, st)"
| "process_segment_files ext capture_file (segment_file # segment_files) st =
     (case call_ext (Call_process_conversation_from_audio capture_file segment_file
                       (voice_sample_filepath st) (user_name st))
             (process_conversation_from_audio ext capture_file segment_file
                (voice_sample_filepath st) (user_name st)) st of
        (Some e, st1) \<Rightarrow> (Some e, st1)
      | (None, st1) \<Rightarrow> process_segment_files ext capture_file segment_files st1)"

text \<open>The \<^verbatim>\<open>try\<close> statement around that loop: the exception is logged and dropped.\<close>

definition process_completed ::
  "('ds, 'w) externals \<Rightarrow> capture_file \<Rightarrow> segment_file list \<Rightarrow> ('ds, 'w) app_state \<Rightarrow>
     ('ds, 'w) app_state" where
  "process_completed ext capture_file segment_files st =
     (case process_segment_files ext capture_file segment_files st of
        (Some e, st1) \<Rightarrow> log (Log_error_exn ''Error processing conversation'' e) st1
      | (None, st1) \<Rightarrow> st1)"

text \<open>"Construct progress updates to server".\<close>

definition completed_progress :: "capture_file \<Rightarrow> conversation \<Rightarrow> conversation_progress" where
  "completed_progress capture_file convo =
     \<lparr>conversation_uuid = uuid convo,
      in_conversation = False,
      start_time = endpoints_start convo,
      end_time = endpoints_end convo,
      progress_device_type = device_type_value capture_file\<rparr>"

definition in_progress_progress :: "capture_file \<Rightarrow> conversation \<Rightarrow> conversation_progress" where
  "in_progress_progress capture_file conversation_in_progress =
     \<lparr>conversation_uuid = uuid conversation_in_progress,
      in_conversation = True,
      start_time = endpoints_start conversation_in_progress,
      end_time = endpoints_end conversation_in_progress,
      progress_device_type = device_type_value capture_file\<rparr>"

definition progress_updates :: "capture_file \<Rightarrow> detection_results \<Rightarrow> conversation_progress list" where
  "progress_updates capture_file results =
     map (completed_progress capture_file) (completed results) @
     (case in_progress results of
        None \<Rightarrow> []
      | Some conversation_in_progress \<Rightarrow> [in_progress_progress capture_file conversation_in_progress])"

text \<open>"Send updates to server": an exception of the notifier leaves the loop and the task.\<close>

fun send_progress_updates ::
  "('ds, 'w) externals \<Rightarrow> capture_file \<Rightarrow> conversation_progress list \<Rightarrow> ('ds, 'w) app_state \<Rightarrow>
     (exn + unit) \<times> ('ds, 'w) app_state" where
  "send_progress_updates ext capture_file [] st = (Inr (), st)"
| "send_progress_updates ext capture_file (progress # updates) st =
     (case call_ext (Call_send_notification ''New Conversation-in-Progress''
                       (''On device: '' @ device_type_value capture_file)
                       ''conversation_progress'' progress)
             (send_notification ext ''New Conversation-in-Progress''
                (''On device: '' @ device_type_value capture_file)
                ''conversation_progress'' progress) st of
        (Some e, st1) \<Rightarrow> (Inl e, st1)
      | (None, st1) \<Rightarrow> send_progress_updates ext capture_file updates st1)"

text \<open>What \<^verbatim>\<open>run\<close> does with the detection results.\<close>

definition handle_detection_results ::
  "('ds, 'w) externals \<Rightarrow> 'ds task \<Rightarrow> detection_results \<Rightarrow> ('ds, 'w) app_state \<Rightarrow>
     (exn + unit) \<times> ('ds, 'w) app_state" where
  "handle_detection_results ext task results st =
     (let capture_file = task_capture_file task;
          format = task_format task;
          detection_service = task_detection_service task
      in case create_segment_files ext capture_file format (completed results) ([], []) st of
           (Inl e, st1) \<Rightarrow> (Inl e, st1)
         | (Inr (convo_filepaths, segment_files), st1) \<Rightarrow>
             (case call_ext (Call_extract_conversations detection_service (completed results) convo_filepaths)
                     (extract_conversations ext detection_service (completed results) convo_filepaths) st1 of
                (Some e, st2) \<Rightarrow> (Inl e, st2)
              | (None, st2) \<Rightarrow>
                  send_progress_updates ext capture_file (progress_updates capture_file results)
                    (process_completed ext capture_file segment_files st2)))"

definition run ::
  "('ds, 'w) externals \<Rightarrow> 'ds task \<Rightarrow> ('ds, 'w) app_state \<Rightarrow> (exn + unit) \<times> ('ds, 'w) app_state" where
  "run ext task st =
     (let audio_data = task_audio_data task;
          capture_finished = (audio_data = None);
          format = task_format task;
          detection_service = task_detection_service task
      in case call_ext (Call_detect_conversations detection_service audio_data format capture_finished)
                (detect_conversations ext detection_service audio_data format capture_finished) st of
           (Inl e, st1) \<Rightarrow> (Inl e, st1)
         | (Inr results, st1) \<Rightarrow> handle_detection_results ext task results st1)"

subsection \<open>The streaming routes\<close>

text \<open>
  Modelled from the spec: \<^verbatim>\<open>StreamingCaptureHandler.handle_audio_data\<close>, which is not
  in \<^verbatim>\<open>capture.py\<close>. "On every subsequent frame while active, appends to the Frame
  Store and submits a processing task carrying the new bytes."
\<close>

definition handle_audio_data ::
  "('ds, 'w) externals \<Rightarrow> 'ds streaming_capture_handler \<Rightarrow> bytes \<Rightarrow> ('ds, 'w) app_state \<Rightarrow>
     (exn + unit) \<times> ('ds, 'w) app_state" where
  "handle_audio_data ext handler chunk st =
     (case call_ext (Call_write_append (filepath (handler_capture_file handler)) chunk)
             (write_append ext (filepath (handler_capture_file handler)) chunk) st of
        (Inl e, st1) \<Rightarrow> (Inl e, st1)
      | (Inr bytes_written, st1) \<Rightarrow>
          (case ProcessAudioChunkTask (handler_capture_file handler) (handler_detection_service handler)
                  (handler_file_extension handler) (Some chunk) of
             Inl e \<Rightarrow> (Inl e, st1)
           | Inr task \<Rightarrow> (Inr (), task_queue_put task st1)))"

text \<open>
  Modelled from the spec: \<^verbatim>\<open>StreamingCaptureHandler.finish_capture_session\<close>, which is
  not in \<^verbatim>\<open>capture.py\<close>. "On an explicit completion signal [...] submits one final
  processing task with no new bytes and captureFinished = true; does not remove the
  session from the Registry itself."
\<close>

definition finish_capture_session ::
  "'ds streaming_capture_handler \<Rightarrow> ('ds, 'w) app_state \<Rightarrow> (exn + unit) \<times> ('ds, 'w) app_state" where
  "finish_capture_session handler st =
     (case ProcessAudioChunkTask (handler_capture_file handler) (handler_detection_service handler)
             (handler_file_extension handler) None of
        Inl e \<Rightarrow> (Inl e, st)
      | Inr task \<Rightarrow> (Inr (), task_queue_put task st))"

text \<open>
  The request body of \<^verbatim>\<open>streaming_post\<close>: the chunks that \<^verbatim>\<open>request.stream()\<close>
  yields, and whether the iteration then ends with \<^verbatim>\<open>ClientDisconnect\<close> instead of
  the end of the stream.
\<close>

record request_stream =
  chunks :: "bytes list"
  disconnects :: bool

text \<open>\<^verbatim>\<open>async for chunk in request.stream(): await capture_handler.handle_audio_data(chunk)\<close>.\<close>

fun stream_chunks ::
  "('ds, 'w) externals \<Rightarrow> 'ds streaming_capture_handler \<Rightarrow> bytes list \<Rightarrow> bool \<Rightarrow>
     ('ds, 'w) app_state \<Rightarrow> (exn + unit) \<times> ('ds, 'w) app_state" where
  "stream_chunks ext capture_handler [] disconnected st =
     (if disconnected then (Inl ClientDisconnect, st) else (Inr (), st))"
| "stream_chunks ext capture_handler (chunk # rest) disconnected st =
     (case handle_audio_data ext capture_handler chunk st of
        (Inl e, st1) \<Rightarrow> (Inl e, st1)
      | (Inr u, st1) \<Rightarrow> stream_chunks ext capture_handler rest disconnected st1)"

text \<open>
  The body of the \<^verbatim>\<open>try\<close> block of \<^verbatim>\<open>streaming_post\<close>. The constructor of the
  handler is a collaborator; the route stores what it returns under the capture id.
\<close>

definition streaming_post_body ::
  "('ds, 'w) externals \<Rightarrow> request_stream \<Rightarrow> string \<Rightarrow> string \<Rightarrow> ('ds, 'w) app_state \<Rightarrow>
     (exn + unit) \<times> ('ds, 'w) app_state" where
  "streaming_post_body ext request capture_uuid device_type st =
     (case (if capture_uuid \<notin> dom (capture_handlers st) then
              (case call_ext (Call_new_streaming_capture_handler device_type capture_uuid ''wav'')
                      (new_streaming_capture_handler ext device_type capture_uuid ''wav'') st of
                 (Inl e, st1) \<Rightarrow> (Inl e, st1)
               | (Inr new_handler, st1) \<Rightarrow>
                   (Inr (), st1\<lparr>capture_handlers := (capture_handlers st1)(capture_uuid \<mapsto> new_handler)\<rparr>))
            else (Inr (), st)) of
        (Inl e, st1) \<Rightarrow> (Inl e, st1)
      | (Inr u, st1) \<Rightarrow>
          (case capture_handlers st1 capture_uuid of
             None \<Rightarrow> (Inl KeyError, st1)
           | Some capture_handler \<Rightarrow>
               stream_chunks ext capture_handler (chunks request) (disconnects request) st1))"


definition complete_audio ::
  "string \<Rightarrow> ('ds, 'w) app_state \<Rightarrow> (exn + response) \<times> ('ds, 'w) app_state" where
  "complete_audio capture_uuid st =
     (let st0 = log (Log_info (''Completing audio capture for '' @ capture_uuid)) st
      in case capture_handlers st0 capture_uuid of
           None \<Rightarrow>
             (Inl (HTTPException 500 (Message ''Capture session not found'')),
              log (Log_error (''Capture session not found: '' @ capture_uuid)) st0)
         | Some capture_handler \<Rightarrow>
             (case finish_capture_session capture_handler st0 of
                (Inl e, st1) \<Rightarrow> (Inl e, st1)
              | (Inr u, st1) \<Rightarrow> (Inr (JSONResponse ''Audio processed''), st1)))"

subsection \<open>Reading the trace\<close>

text \<open>The calls of one collaborator, in order, with their arguments.\<close>

fun append_to_wav_file_call :: "'ds event \<Rightarrow> (string \<times> bytes \<times> nat) option" where
  "append_to_wav_file_call (Call_append_to_wav_file p sample_bytes sample_rate) = Some (p, sample_bytes, sample_rate)"
| "append_to_wav_file_call ev = None"

definition append_to_wav_file_calls :: "'ds event list \<Rightarrow> (string \<times> bytes \<times> nat) list" where
  "append_to_wav_file_calls tr = List.map_filter append_to_wav_file_call tr"

fun write_append_call :: "'ds event \<Rightarrow> (string \<times> bytes) option" where
  "write_append_call (Call_write_append p content) = Some (p, content)"
| "write_append_call ev = None"

definition write_append_calls :: "'ds event list \<Rightarrow> (string \<times> bytes) list" where
  "write_append_calls tr = List.map_filter write_append_call tr"

fun detect_conversations_call :: "'ds event \<Rightarrow> ('ds \<times> bytes option \<times> string \<times> bool) option" where
  "detect_conversations_call (Call_detect_conversations ds audio_data format capture_finished) =
     Some (ds, audio_data, format, capture_finished)"
| "detect_conversations_call ev = None"

definition detect_conversations_calls :: "'ds event list \<Rightarrow> ('ds \<times> bytes option \<times> string \<times> bool) list" where
  "detect_conversations_calls tr = List.map_filter detect_conversations_call tr"

fun process_conversation_call :: "'ds event \<Rightarrow> segment_file option" where
  "process_conversation_call (Call_process_conversation_from_audio capture_file segment_file v n) = Some segment_file"
| "process_conversation_call ev = None"

definition process_conversation_calls :: "'ds event list \<Rightarrow> segment_file list" where
  "process_conversation_calls tr = List.map_filter process_conversation_call tr"

fun send_notification_call :: "'ds event \<Rightarrow> conversation_progress option" where
  "send_notification_call (Call_send_notification title body type payload) = Some payload"
| "send_notification_call ev = None"


fun logged_exception :: "'ds event \<Rightarrow> (string \<times> exn) option" where
  "logged_exception (Log_error_exn prefix e) = Some (prefix, e)"
| "logged_exception ev = None"

definition logged_exceptions :: "'ds event list \<Rightarrow> (string \<times> exn) list" where
  "logged_exceptions tr = List.map_filter logged_exception tr"

subsection \<open>Example collaborators and states\<close>

text \<open>
  Collaborators that always succeed, over a world without state; the examples below
  change one collaborator at a time.
\<close>

definition example_externals :: "(nat, unit) externals" where
  "example_externals =
     \<lparr>glob = (\<lambda>pattern w. []),
      get_capture_uuid = (\<lambda>p. if p = ''captures/20240101/ios/abc.wav'' \<or> p = ''captures/20240102/ios/abc.aac''
                                then Some ''abc'' else None),
      from_filepath = (\<lambda>found. case found of None \<Rightarrow> Inl TypeError
         | Some p \<Rightarrow> Inr (Some \<lparr>filepath = p, file_timestamp = ''20240101'', device_type_value = ''ios''\<rparr>)),
      new_capture_file = (\<lambda>dir capture_uuid device_type timestamp file_extension w.
         (Inr \<lparr>filepath = dir @ ''/'' @ capture_uuid @ ''.'' @ file_extension,
               file_timestamp = timestamp, device_type_value = device_type\<rparr>, w)),
      new_detection_service = (\<lambda>capture_filepath capture_timestamp w. (Inr 7, w)),
      new_streaming_capture_handler = (\<lambda>device_type capture_uuid file_extension w.
         (Inr \<lparr>handler_capture_file =
                 \<lparr>filepath = capture_uuid @ ''.'' @ file_extension, file_timestamp = ''now'',
                  device_type_value = device_type\<rparr>,
               handler_detection_service = 9,
               handler_file_extension = file_extension\<rparr>, w)),
      append_to_wav_file = (\<lambda>p sample_bytes sample_rate w. (Inr (length sample_bytes), w)),
      write_append = (\<lambda>p content w. (Inr (length content), w)),
      detect_conversations = (\<lambda>ds audio_data format capture_finished w.
         (Inr \<lparr>completed = [], in_progress = None\<rparr>, w)),
      create_conversation_segment = (\<lambda>capture_file conversation_uuid t file_extension w.
         (Inr \<lparr>segment_filepath = conversation_uuid @ ''.'' @ file_extension\<rparr>, w)),
      extract_conversations = (\<lambda>ds conversations conversation_filepaths w. (None, w)),
      process_conversation_from_audio = (\<lambda>capture_file segment_file voice_sample speaker w. (None, w)),
      send_notification = (\<lambda>title body type payload w. (None, w))\<rparr>"

text \<open>The same, with two files on disk that both carry the capture id \<open>abc\<close>.\<close>

definition two_files_externals :: "(nat, unit) externals" where
  "two_files_externals =
     example_externals\<lparr>glob := (\<lambda>pattern w.
        if pattern = ''captures/*/*/*''
        then [''captures/20240101/ios/abc.wav'', ''captures/20240102/ios/abc.aac''] else [])\<rparr>"

definition example_state :: "(nat, unit) app_state" where
  "example_state =
     \<lparr>capture_dir = ''captures'', voice_sample_filepath = ''voice.wav'', user_name = ''Bob'',
      capture_handlers = Map.empty, capture_files_by_id = Map.empty,
      conversation_detection_service_by_id = Map.empty,
      task_queue = [], trace = [], world = ()\<rparr>"

text \<open>
  A session for the capture id \<open>abc\<close>: the state after a first upload of raw samples,
  and the state after a second one.
\<close>

definition abc_capture_file :: capture_file where
  "abc_capture_file = \<lparr>filepath = ''captures/abc.wav'', file_timestamp = ''20240101'', device_type_value = ''ios''\<rparr>"

definition session_state :: "(nat, unit) app_state" where
  "session_state =
     example_state
        \<lparr>capture_files_by_id := [''abc'' \<mapsto> abc_capture_file],
         conversation_detection_service_by_id := [''abc'' \<mapsto> 7],
         task_queue := [\<lparr>task_capture_file = abc_capture_file,
                         task_detection_service = 7, task_audio_data = Some [1, 2], task_format = ''wav''\<rparr>],
         trace := [Call_new_capture_file ''captures'' ''abc'' ''ios'' ''20240101'' ''wav'',
                   Call_new_detection_service ''captures/abc.wav'' ''20240101'',
                   Call_append_to_wav_file ''captures/abc.wav'' [1, 2] 16000,
                   Log_bytes_appended ''captures/abc.wav'' 2]\<rparr>"

definition second_upload_state :: "(nat, unit) app_state" where
  "second_upload_state =
     session_state
        \<lparr>task_queue := task_queue session_state @
           [\<lparr>task_capture_file = abc_capture_file,
             task_detection_service = 7, task_audio_data = Some [3, 4], task_format = ''wav''\<rparr>],
         trace := trace session_state @
           [Call_append_to_wav_file ''captures/abc.wav'' [3, 4] 16000,
            Log_bytes_appended ''captures/abc.wav'' 2]\<rparr>"

text \<open>One file on disk that carries the capture id \<open>abc\<close>.\<close>

definition one_file_externals :: "(nat, unit) externals" where
  "one_file_externals =
     example_externals\<lparr>glob := (\<lambda>pattern w.
        if pattern = ''captures/*/*/*'' then [''captures/20240101/ios/abc.wav''] else [])\<rparr>"

text \<open>
  Three completed conversations and one in progress; the processor fails for the
  segment file of the second conversation.
\<close>

definition example_results :: detection_results where
  "example_results =
     \<lparr>completed = [\<lparr>uuid = ''c1'', endpoints_start = 0, endpoints_end = 10\<rparr>,
                   \<lparr>uuid = ''c2'', endpoints_start = 20, endpoints_end = 30\<rparr>,
                   \<lparr>uuid = ''c3'', endpoints_start = 40, endpoints_end = 50\<rparr>],
      in_progress = Some \<lparr>uuid = ''c4'', endpoints_start = 60, endpoints_end = 70\<rparr>\<rparr>"

definition failing_processor_externals :: "(nat, unit) externals" where
  "failing_processor_externals =
     example_externals
       \<lparr>detect_conversations := (\<lambda>ds audio_data format capture_finished w. (Inr example_results, w)),
        process_conversation_from_audio := (\<lambda>capture_file segment_file voice_sample speaker w.
          (if segment_filepath segment_file = ''c2.wav''
           then Some (External_error ''transcription failed'') else None, w))\<rparr>"

definition example_task :: "nat task" where
  "example_task =
     \<lparr>task_capture_file = abc_capture_file, task_detection_service = 7,
      task_audio_data = Some [1, 2], task_format = ''wav''\<rparr>"

definition example_run_trace :: "nat event list" where
  "example_run_trace =
     [Call_detect_conversations 7 (Some [1, 2]) ''wav'' False,
      Call_create_conversation_segment abc_capture_file ''c1'' 0 ''wav'',
      Call_create_conversation_segment abc_capture_file ''c2'' 20 ''wav'',
      Call_create_conversation_segment abc_capture_file ''c3'' 40 ''wav'',
      Call_extract_conversations 7 (completed example_results) [''c1.wav'', ''c2.wav'', ''c3.wav''],
      Call_process_conversation_from_audio abc_capture_file \<lparr>segment_filepath = ''c1.wav''\<rparr> ''voice.wav'' ''Bob'',
      Call_process_conversation_from_audio abc_capture_file \<lparr>segment_filepath = ''c2.wav''\<rparr> ''voice.wav'' ''Bob'',
      Log_error_exn ''Error processing conversation'' (External_error ''transcription failed''),
      Call_send_notification ''New Conversation-in-Progress'' ''On device: ios'' ''conversation_progress''
        \<lparr>conversation_uuid = ''c1'', in_conversation = False, start_time = 0, end_time = 10,
         progress_device_type = ''ios''\<rparr>,
      Call_send_notification ''New Conversation-in-Progress'' ''On device: ios'' ''conversation_progress''
        \<lparr>conversation_uuid = ''c2'', in_conversation = False, start_time = 20, end_time = 30,
         progress_device_type = ''ios''\<rparr>,
      Call_send_notification ''New Conversation-in-Progress'' ''On device: ios'' ''conversation_progress''
        \<lparr>conversation_uuid = ''c3'', in_conversation = False, start_time = 40, end_time = 50,
         progress_device_type = ''ios''\<rparr>,
      Call_send_notification ''New Conversation-in-Progress'' ''On device: ios'' ''conversation_progress''
        \<lparr>conversation_uuid = ''c4'', in_conversation = True, start_time = 60, end_time = 70,
         progress_device_type = ''ios''\<rparr>]"

definition finalized_state :: "(nat, unit) app_state" where
  "finalized_state =
     session_state
       \<lparr>trace := trace session_state @ [Log_info ''Found file to process: captures/20240101/ios/abc.wav''],
        task_queue := task_queue session_state @
          [\<lparr>task_capture_file = \<lparr>filepath = ''captures/20240101/ios/abc.wav'', file_timestamp = ''20240101'',
                                  device_type_value = ''ios''\<rparr>,
            task_detection_service = 7, task_audio_data = None, task_format = ''wav''\<rparr>],
        capture_files_by_id := Map.empty,
        conversation_detection_service_by_id := Map.empty\<rparr>"

text \<open>A streaming session for the capture id \<open>abc\<close>, as \<open>streaming_post\<close> creates it.\<close>

definition abc_handler :: "nat streaming_capture_handler" where
  "abc_handler =
     \<lparr>handler_capture_file = \<lparr>filepath = ''abc.wav'', file_timestamp = ''now'', device_type_value = ''ios''\<rparr>,
      handler_detection_service = 9,
      handler_file_extension = ''wav''\<rparr>"

definition streaming_state :: "(nat, unit) app_state" where
  "streaming_state =
     example_state
       \<lparr>capture_handlers := [''abc'' \<mapsto> abc_handler],
        task_queue := [\<lparr>task_capture_file = handler_capture_file abc_handler, task_detection_service = 9,
                        task_audio_data = Some [1, 2], task_format = ''wav''\<rparr>],
        trace := [Log_info ''Client connected'',
                  Call_new_streaming_capture_handler ''ios'' ''abc'' ''wav'',
                  Call_write_append ''abc.wav'' [1, 2]]\<rparr>"

subsection \<open>Collaborators that record the calls they receive\<close>

text \<open>
  Which events of the trace are calls to a collaborator (the others are log lines).
\<close>

fun is_call :: "'ds event \<Rightarrow> bool" where
  "is_call (Log_info m) = False"
| "is_call (Log_error m) = False"
| "is_call (Log_error_exn p e) = False"
| "is_call (Log_bytes_appended p n) = False"
| "is_call Print_exc = False"
| "is_call ev = True"

text \<open>
  Collaborators that write down what they receive. \<open>recording ext\<close> behaves as \<open>ext\<close>
  on the first component of its world; in the second component every collaborator
  appends the call it was applied to, with the arguments it was given. What reaches a
  collaborator is then read from the world it leaves behind, independently of the trace
  that the routes keep.
\<close>

definition record_call ::
  "'ds event \<Rightarrow> ('w \<Rightarrow> 'r \<times> 'w) \<Rightarrow> 'w \<times> 'ds event list \<Rightarrow> 'r \<times> ('w \<times> 'ds event list)" where
  "record_call ev f = (\<lambda>(w, calls). case f w of (r, w') \<Rightarrow> (r, (w', calls @ [ev])))"

definition recording :: "('ds, 'w) externals \<Rightarrow> ('ds, 'w \<times> 'ds event list) externals" where
  "recording ext =
     \<lparr>glob = (\<lambda>pattern (w, calls). glob ext pattern w),
      get_capture_uuid = get_capture_uuid ext,
      from_filepath = from_filepath ext,
      new_capture_file = (\<lambda>dir capture_uuid device_type timestamp file_extension.
         record_call (Call_new_capture_file dir capture_uuid device_type timestamp file_extension)
           (new_capture_file ext dir capture_uuid device_type timestamp file_extension)),
      new_detection_service = (\<lambda>capture_filepath capture_timestamp.
         record_call (Call_new_detection_service capture_filepath capture_timestamp)
           (new_detection_service ext capture_filepath capture_timestamp)),
      new_streaming_capture_handler = (\<lambda>device_type capture_uuid file_extension.
         record_call (Call_new_streaming_capture_handler device_type capture_uuid file_extension)
           (new_streaming_capture_handler ext device_type capture_uuid file_extension)),
      append_to_wav_file = (\<lambda>p sample_bytes sample_rate.
         record_call (Call_append_to_wav_file p sample_bytes sample_rate)
           (append_to_wav_file ext p sample_bytes sample_rate)),
      write_append = (\<lambda>p content.
         record_call (Call_write_append p content) (write_append ext p content)),
      detect_conversations = (\<lambda>ds audio_data format capture_finished.
         record_call (Call_detect_conversations ds audio_data format capture_finished)
           (detect_conversations ext ds audio_data format capture_finished)),
      create_conversation_segment = (\<lambda>capture_file conversation_uuid t file_extension.
         record_call (Call_create_conversation_segment capture_file conversation_uuid t file_extension)
           (create_conversation_segment ext capture_file conversation_uuid t file_extension)),
      extract_conversations = (\<lambda>ds conversations conversation_filepaths.
         record_call (Call_extract_conversations ds conversations conversation_filepaths)
           (extract_conversations ext ds conversations conversation_filepaths)),
      process_conversation_from_audio = (\<lambda>capture_file segment_file voice_sample speaker.
         record_call (Call_process_conversation_from_audio capture_file segment_file voice_sample speaker)
           (process_conversation_from_audio ext capture_file segment_file voice_sample speaker)),
      send_notification = (\<lambda>title body type payload.
         record_call (Call_send_notification title body type payload)
           (send_notification ext title body type payload))\<rparr>"

text \<open>The calls that the recording collaborators have received so far.\<close>

definition received :: "('ds, 'w \<times> 'ds event list) app_state \<Rightarrow> 'ds event list" where
  "received st = snd (world st)"

text \<open>
  From \<open>st\<close> to \<open>st'\<close> the trace grew by some events, and the collaborators received
  exactly the calls among them, in the same order.
\<close>

definition faithful ::
  "('ds, 'w \<times> 'ds event list) app_state \<Rightarrow> ('ds, 'w \<times> 'ds event list) app_state \<Rightarrow> bool" where
  "faithful st st' \<longleftrightarrow>
     (\<exists>evs. trace st' = trace st @ evs \<and> received st' = received st @ filter is_call evs)"

fun new_capture_file_call :: "'ds event \<Rightarrow> (string \<times> string \<times> string \<times> string \<times> string) option" where
  "new_capture_file_call (Call_new_capture_file dir capture_uuid device_type timestamp file_extension) =
     Some (dir, capture_uuid, device_type, timestamp, file_extension)"
| "new_capture_file_call ev = None"

definition new_capture_file_calls :: "'ds event list \<Rightarrow> (string \<times> string \<times> string \<times> string \<times> string) list" where
  "new_capture_file_calls tr = List.map_filter new_capture_file_call tr"

text \<open>The example states over recording collaborators that have received nothing yet.\<close>

definition recording_state :: "(nat, unit \<times> nat event list) app_state" where
  "recording_state =
     \<lparr>capture_dir = ''captures'', voice_sample_filepath = ''voice.wav'', user_name = ''Bob'',
      capture_handlers = Map.empty, capture_files_by_id = Map.empty,
      conversation_detection_service_by_id = Map.empty,
      task_queue = [], trace = [], world = ((), [])\<rparr>"

definition recording_session_state :: "(nat, unit \<times> nat event list) app_state" where
  "recording_session_state =
     recording_state
        \<lparr>capture_files_by_id := [''abc'' \<mapsto> abc_capture_file],
         conversation_detection_service_by_id := [''abc'' \<mapsto> 7]\<rparr>"




definition recording_second_state :: "(nat, unit \<times> nat event list) app_state" where
  "recording_second_state =
     recording_session_state
        \<lparr>task_queue := [\<lparr>task_capture_file = abc_capture_file,
             task_detection_service = 7, task_audio_data = Some [3, 4], task_format = ''wav''\<rparr>],
         trace := [Call_append_to_wav_file ''captures/abc.wav'' [3, 4] 16000,
                   Log_bytes_appended ''captures/abc.wav'' 2],
         world := ((), [Call_append_to_wav_file ''captures/abc.wav'' [3, 4] 16000])\<rparr>"

section \<open>Properties\<close>

subsection \<open>Auxiliary facts\<close>

lemma map_filter_append: "List.map_filter f (xs @ ys) = List.map_filter f xs @ List.map_filter f ys"
  by (simp add: List.map_filter_def)

lemma map_filter_single: "List.map_filter f [x] = (case f x of None \<Rightarrow> [] | Some y \<Rightarrow> [y])"
  by (simp add: List.map_filter_def split: option.split)

lemma call_ext_eq:
  "call_ext ev f st = (r, st') \<longleftrightarrow>
     r = fst (f (world st)) \<and> st' = st\<lparr>trace := trace st @ [ev], world := snd (f (world st))\<rparr>"
  by (auto simp: call_ext_def split: prod.splits)

lemma list_index_find:
  "find (\<lambda>p. f p = v) xs = Some p \<Longrightarrow>
     \<exists>i. list_index (map f xs) v = Inr (int i) \<and> i < length xs \<and> xs ! i = p"
proof (induction xs)
  case Nil
  then show ?case by simp
next
  case (Cons x xs)
  show ?case
  proof (cases "f x = v")
    case True
    with Cons.prems show ?thesis by (intro exI [of _ 0]) simp
  next
    case False
    with Cons obtain i where "list_index (map f xs) v = Inr (int i)" "i < length xs" "xs ! i = p"
      by auto
    with False show ?thesis by (intro exI [of _ "Suc i"]) (simp add: add.commute)
  qed
qed

lemma extension_mp3: "file_extension_of (Some ''chunk.mp3'') = Inr ''mp3''"
  by (simp add: file_extension_of_def splitext_def rfind_def lstrip_dot_def splitext_loop.simps)

subsection \<open>Recovering a capture file by its id\<close>

text \<open>
  Claim C2, as the code has it: when at least one file under the root carries the capture
  id, \<open>find_audio_filepath\<close> returns the first such file in the order of \<^verbatim>\<open>glob\<close>,
  whether or not further files carry the same id; it does not return absent then.
\<close>

theorem find_audio_filepath_first_match:
  assumes "find (\<lambda>p. get_capture_uuid ext p = Some capture_uuid)
             (glob ext (os_path_join audio_directory ''*/*/*'') w) = Some p"
  shows "find_audio_filepath ext w audio_directory capture_uuid = Inr (Some p)"
proof -
  from list_index_find [OF assms] obtain i where
    "list_index (map (get_capture_uuid ext) (glob ext (os_path_join audio_directory ''*/*/*'') w))
       (Some capture_uuid) = Inr (int i)"
    "glob ext (os_path_join audio_directory ''*/*/*'') w ! i = p"
    by blast
  then show ?thesis by (simp add: find_audio_filepath_def Let_def)
qed

theorem find_audio_filepath_first_match_witness:
  "find_audio_filepath two_files_externals () ''captures'' ''abc'' = Inr (Some ''captures/20240101/ios/abc.wav'')"
  by (rule find_audio_filepath_first_match)
    (simp add: two_files_externals_def example_externals_def os_path_join_def)

text \<open>
  With no matching file the lookup raises \<^verbatim>\<open>ValueError\<close> (\<^verbatim>\<open>list.index\<close> never
  returns a negative number), and with two matching files it returns the first one:
  in neither case does it return absent.
\<close>

theorem find_audio_filepath_counterexample:
  "find_audio_filepath example_externals () ''captures'' ''abc'' = Inl ValueError
   \<and> find_audio_filepath two_files_externals () ''captures'' ''abc'' =
       Inr (Some ''captures/20240101/ios/abc.wav'')"
  by (simp add: find_audio_filepath_def two_files_externals_def example_externals_def os_path_join_def)

subsection \<open>Uploading a chunk\<close>

text \<open>
  Claim C5: an upload whose file extension is not one of \<open>pcm\<close>, \<open>wav\<close>, \<open>aac\<close> is answered
  with a normal response that carries the failure message, and the application state is
  left as it was: nothing is registered, no collaborator is called, no file is touched.
\<close>

theorem upload_chunk_unsupported_extension:
  assumes "file_extension_of filename = Inr uploaded_extension"
    and "uploaded_extension \<notin> supported_upload_file_extensions"
  shows "upload_chunk ext filename content capture_uuid timestamp device_type st =
           (Inr (JSONResponse (''Failed to process because file extension is unsupported: '' @ uploaded_extension)), st)"
  using assms by (simp add: upload_chunk_def upload_chunk_body_def except_to_500_def)

theorem upload_chunk_unsupported_extension_witness:
  "upload_chunk example_externals (Some ''chunk.mp3'') [1, 2, 3] ''abc'' ''20240101'' ''ios'' example_state =
     (Inr (JSONResponse ''Failed to process because file extension is unsupported: mp3''), example_state)"
proof -
  have n: "''mp3'' \<notin> supported_upload_file_extensions"
    by (simp add: supported_upload_file_extensions_def)
  show ?thesis
    using upload_chunk_unsupported_extension [OF extension_mp3 n, of example_externals "[1, 2, 3]" "''abc''" "''20240101''" "''ios''" example_state]
    by simp
qed

lemma extension_pcm1: "file_extension_of (Some ''chunk1.pcm'') = Inr ''pcm''"
  by (simp add: file_extension_of_def splitext_def rfind_def lstrip_dot_def splitext_loop.simps)

lemma supp_pcm: "''pcm'' \<in> supported_upload_file_extensions"
  by (simp add: supported_upload_file_extensions_def)

lemma new_session:
  "lookup_or_create_session example_externals ''abc'' ''20240101'' ''ios'' ''wav'' example_state =
     (Inr (abc_capture_file, 7),
      example_state
        \<lparr>capture_files_by_id := [''abc'' \<mapsto> abc_capture_file],
         conversation_detection_service_by_id := [''abc'' \<mapsto> 7],
         trace := [Call_new_capture_file ''captures'' ''abc'' ''ios'' ''20240101'' ''wav'',
                   Call_new_detection_service ''captures/abc.wav'' ''20240101'']\<rparr>)"
  by (simp add: lookup_or_create_session_def example_state_def example_externals_def call_ext_def
        abc_capture_file_def)

lemma upload_chunk_body_supported:
  assumes "file_extension_of filename = Inr uploaded_extension"
    and "uploaded_extension \<in> supported_upload_file_extensions"
    and "lookup_or_create_session ext capture_uuid timestamp device_type
           (if uploaded_extension = ''pcm'' then ''wav'' else uploaded_extension) st =
             (Inr (capture_file, detection_service), st1)"
    and "append_to_file ext (uploaded_extension = ''pcm'') capture_file content st1 = (Inr bytes_written, st2)"
  shows "upload_chunk ext filename content capture_uuid timestamp device_type st =
           (Inr (JSONResponse ''Audio processed''),
            task_queue_put
              \<lparr>task_capture_file = capture_file, task_detection_service = detection_service,
               task_audio_data = Some content,
               task_format = (if uploaded_extension = ''pcm'' then ''wav'' else uploaded_extension)\<rparr>
              (log (Log_bytes_appended (filepath capture_file) bytes_written) st2))"
proof -
  have f: "(if uploaded_extension = ''pcm'' then ''wav'' else uploaded_extension) = ''wav''
         \<or> (if uploaded_extension = ''pcm'' then ''wav'' else uploaded_extension) = ''aac''"
    using assms(2) by (auto simp: supported_upload_file_extensions_def)
  show ?thesis
    unfolding upload_chunk_def upload_chunk_body_def Let_def
    using f by (simp add: assms except_to_500_def ProcessAudioChunkTask_def del: One_nat_def)
qed

lemma except_to_500_Inr:
  "except_to_500 prefix outcome = (Inr r, st') \<longleftrightarrow> outcome = (Inr r, st')"
  by (cases outcome; cases "fst outcome") (auto simp: except_to_500_def)

lemma upload_chunk_success:
  assumes "upload_chunk ext filename content capture_uuid timestamp device_type st =
             (Inr (JSONResponse ''Audio processed''), st')"
  obtains uploaded_extension capture_file detection_service st1 bytes_written st2 where
    "file_extension_of filename = Inr uploaded_extension"
    "uploaded_extension \<in> supported_upload_file_extensions"
    "lookup_or_create_session ext capture_uuid timestamp device_type
       (if uploaded_extension = ''pcm'' then ''wav'' else uploaded_extension) st =
         (Inr (capture_file, detection_service), st1)"
    "append_to_file ext (uploaded_extension = ''pcm'') capture_file content st1 = (Inr bytes_written, st2)"
    "st' = task_queue_put
             \<lparr>task_capture_file = capture_file, task_detection_service = detection_service,
              task_audio_data = Some content,
              task_format = (if uploaded_extension = ''pcm'' then ''wav'' else uploaded_extension)\<rparr>
             (log (Log_bytes_appended (filepath capture_file) bytes_written) st2)"
proof -
  from assms have body:
    "upload_chunk_body ext filename content capture_uuid timestamp device_type st =
       (Inr (JSONResponse ''Audio processed''), st')"
    by (simp add: upload_chunk_def except_to_500_Inr)
  then obtain e where e: "file_extension_of filename = Inr e"
    by (cases "file_extension_of filename") (auto simp: upload_chunk_body_def)
  have supp: "e \<in> supported_upload_file_extensions"
  proof (rule ccontr)
    assume "e \<notin> supported_upload_file_extensions"
    with body e show False by (simp add: upload_chunk_body_def)
  qed
  let ?fe = "if e = ''pcm'' then ''wav'' else e"
  obtain r1 st1 where l: "lookup_or_create_session ext capture_uuid timestamp device_type ?fe st = (r1, st1)"
    by (cases "lookup_or_create_session ext capture_uuid timestamp device_type ?fe st")
  from body e supp l obtain capture_file detection_service where r1: "r1 = Inr (capture_file, detection_service)"
    by (cases r1) (auto simp: upload_chunk_body_def Let_def)
  obtain r2 st2 where a: "append_to_file ext (e = ''pcm'') capture_file content st1 = (r2, st2)"
    by (cases "append_to_file ext (e = ''pcm'') capture_file content st1")
  from body e supp l r1 a obtain bytes_written where r2: "r2 = Inr bytes_written"
    by (cases r2) (auto simp: upload_chunk_body_def Let_def)
  from body e supp l r1 a r2 have
    "st' = task_queue_put
             \<lparr>task_capture_file = capture_file, task_detection_service = detection_service,
              task_audio_data = Some content, task_format = ?fe\<rparr>
             (log (Log_bytes_appended (filepath capture_file) bytes_written) st2)"
    by (auto simp: upload_chunk_body_def Let_def ProcessAudioChunkTask_def split: if_splits)
  with e supp l r1 a r2 show thesis
    by (intro that [of e capture_file detection_service st1 bytes_written st2]) simp_all
qed

lemma lookup_or_create_session_frame:
  assumes "lookup_or_create_session ext capture_uuid timestamp device_type file_extension st = (r, st')"
  shows "task_queue st' = task_queue st"
    and "capture_handlers st' = capture_handlers st"
    and "append_to_wav_file_calls (trace st') = append_to_wav_file_calls (trace st)"
    and "write_append_calls (trace st') = write_append_calls (trace st)"
  using assms
  by (auto simp: lookup_or_create_session_def call_ext_eq log_def Let_def
        append_to_wav_file_calls_def write_append_calls_def map_filter_append map_filter_single
      split: option.splits prod.splits sum.splits)

lemma append_to_file_frame:
  assumes "append_to_file ext write_wav_header capture_file content st = (r, st')"
  shows "task_queue st' = task_queue st"
    and "capture_handlers st' = capture_handlers st"
    and "capture_files_by_id st' = capture_files_by_id st"
    and "conversation_detection_service_by_id st' = conversation_detection_service_by_id st"
    and "append_to_wav_file_calls (trace st') = append_to_wav_file_calls (trace st) @
           (if write_wav_header then [(filepath capture_file, content, 16000)] else [])"
    and "write_append_calls (trace st') = write_append_calls (trace st) @
           (if write_wav_header then [] else [(filepath capture_file, content)])"
  using assms
  by (auto simp: append_to_file_def call_ext_eq
        append_to_wav_file_calls_def write_append_calls_def map_filter_append map_filter_single
      split: if_splits)

lemma upload_chunk_appends_trace:
  assumes "file_extension_of filename = Inr uploaded_extension"
    and "upload_chunk ext filename content capture_uuid timestamp device_type st =
           (Inr (JSONResponse ''Audio processed''), st')"
  shows "\<exists>task. task_queue st' = task_queue st @ [task] \<and>
           task_format task = (if uploaded_extension = ''pcm'' then ''wav'' else uploaded_extension) \<and>
           append_to_wav_file_calls (trace st') = append_to_wav_file_calls (trace st) @
             (if uploaded_extension = ''pcm'' then [(filepath (task_capture_file task), content, 16000)] else []) \<and>
           write_append_calls (trace st') = write_append_calls (trace st) @
             (if uploaded_extension = ''pcm'' then [] else [(filepath (task_capture_file task), content)])"
proof -
  from assms(2) obtain e capture_file detection_service st1 bytes_written st2 where
    e: "file_extension_of filename = Inr e"
    and s: "lookup_or_create_session ext capture_uuid timestamp device_type
          (if e = ''pcm'' then ''wav'' else e) st = (Inr (capture_file, detection_service), st1)"
    and a: "append_to_file ext (e = ''pcm'') capture_file content st1 = (Inr bytes_written, st2)"
    and st': "st' = task_queue_put
                   \<lparr>task_capture_file = capture_file, task_detection_service = detection_service,
                    task_audio_data = Some content,
                    task_format = (if e = ''pcm'' then ''wav'' else e)\<rparr>
                   (log (Log_bytes_appended (filepath capture_file) bytes_written) st2)"
    by (rule upload_chunk_success)
  from e assms(1) have [simp]: "e = uploaded_extension" by simp
  let ?task = "\<lparr>task_capture_file = capture_file, task_detection_service = detection_service,
                    task_audio_data = Some content,
                    task_format = (if uploaded_extension = ''pcm'' then ''wav'' else uploaded_extension)\<rparr>"
  have q: "task_queue st' = task_queue st @ [?task]"
    using lookup_or_create_session_frame(1) [OF s] append_to_file_frame(1) [OF a]
    by (simp add: st' task_queue_put_def log_def)
  have w: "append_to_wav_file_calls (trace st') = append_to_wav_file_calls (trace st) @
             (if uploaded_extension = ''pcm'' then [(filepath capture_file, content, 16000)] else [])"
    using lookup_or_create_session_frame(3) [OF s] append_to_file_frame(5) [OF a]
    by (simp add: st' task_queue_put_def log_def append_to_wav_file_calls_def map_filter_append map_filter_single)
  have p: "write_append_calls (trace st') = write_append_calls (trace st) @
             (if uploaded_extension = ''pcm'' then [] else [(filepath capture_file, content)])"
    using lookup_or_create_session_frame(4) [OF s] append_to_file_frame(6) [OF a]
    by (simp add: st' task_queue_put_def log_def write_append_calls_def map_filter_append map_filter_single)
  show ?thesis
    by (rule exI [of _ ?task]) (use q w p in simp)
qed

lemma extension_pcm2: "file_extension_of (Some ''chunk2.pcm'') = Inr ''pcm''"
  by (simp add: file_extension_of_def splitext_def rfind_def lstrip_dot_def splitext_loop.simps)

lemma example_append_to_wav_file:
  "append_to_file example_externals True abc_capture_file content (st :: (nat, unit) app_state) =
     (Inr (length content),
      st\<lparr>trace := trace st @ [Call_append_to_wav_file ''captures/abc.wav'' content 16000], world := ()\<rparr>)"
  by (simp add: append_to_file_def call_ext_def example_externals_def abc_capture_file_def)

lemma first_pcm_upload:
  "upload_chunk example_externals (Some ''chunk1.pcm'') [1, 2] ''abc'' ''20240101'' ''ios'' example_state =
     (Inr (JSONResponse ''Audio processed''), session_state)"
proof -
  let ?st1 = "example_state
        \<lparr>capture_files_by_id := [''abc'' \<mapsto> abc_capture_file],
         conversation_detection_service_by_id := [''abc'' \<mapsto> 7],
         trace := [Call_new_capture_file ''captures'' ''abc'' ''ios'' ''20240101'' ''wav'',
                   Call_new_detection_service ''captures/abc.wav'' ''20240101'']\<rparr>"
  let ?st2 = "?st1\<lparr>trace := trace ?st1 @ [Call_append_to_wav_file ''captures/abc.wav'' [1, 2] 16000], world := ()\<rparr>"
  have l: "lookup_or_create_session example_externals ''abc'' ''20240101'' ''ios''
             (if ''pcm'' = ''pcm'' then ''wav'' else ''pcm'') example_state = (Inr (abc_capture_file, 7), ?st1)"
    by (simp add: new_session)
  have a: "append_to_file example_externals (''pcm'' = ''pcm'') abc_capture_file [1, 2] ?st1 = (Inr 2, ?st2)"
    by (simp add: example_append_to_wav_file)
  have "upload_chunk example_externals (Some ''chunk1.pcm'') [1, 2] ''abc'' ''20240101'' ''ios'' example_state =
          (Inr (JSONResponse ''Audio processed''),
            task_queue_put
              \<lparr>task_capture_file = abc_capture_file, task_detection_service = 7,
               task_audio_data = Some [1, 2], task_format = (if ''pcm'' = ''pcm'' then ''wav'' else ''pcm'')\<rparr>
              (log (Log_bytes_appended (filepath abc_capture_file) 2) ?st2))"
    by (rule upload_chunk_body_supported [OF extension_pcm1 supp_pcm l a])
  also have "\<dots> = (Inr (JSONResponse ''Audio processed''), session_state)"
    by (simp add: task_queue_put_def log_def session_state_def example_state_def abc_capture_file_def)
  finally show ?thesis .
qed

lemma existing_session:
  "lookup_or_create_session example_externals ''abc'' ''20240101'' ''ios'' ''wav'' session_state =
     (Inr (abc_capture_file, 7), session_state)"
  by (simp add: lookup_or_create_session_def session_state_def example_state_def)

lemma second_pcm_upload:
  "upload_chunk example_externals (Some ''chunk2.pcm'') [3, 4] ''abc'' ''20240101'' ''ios'' session_state =
     (Inr (JSONResponse ''Audio processed''), second_upload_state)"
proof -
  let ?st2 = "session_state\<lparr>trace := trace session_state @ [Call_append_to_wav_file ''captures/abc.wav'' [3, 4] 16000], world := ()\<rparr>"
  have l: "lookup_or_create_session example_externals ''abc'' ''20240101'' ''ios''
             (if ''pcm'' = ''pcm'' then ''wav'' else ''pcm'') session_state = (Inr (abc_capture_file, 7), session_state)"
    by (simp add: existing_session)
  have a: "append_to_file example_externals (''pcm'' = ''pcm'') abc_capture_file [3, 4] session_state = (Inr 2, ?st2)"
    by (simp add: example_append_to_wav_file)
  have "upload_chunk example_externals (Some ''chunk2.pcm'') [3, 4] ''abc'' ''20240101'' ''ios'' session_state =
          (Inr (JSONResponse ''Audio processed''),
            task_queue_put
              \<lparr>task_capture_file = abc_capture_file, task_detection_service = 7,
               task_audio_data = Some [3, 4], task_format = (if ''pcm'' = ''pcm'' then ''wav'' else ''pcm'')\<rparr>
              (log (Log_bytes_appended (filepath abc_capture_file) 2) ?st2))"
    by (rule upload_chunk_body_supported [OF extension_pcm2 supp_pcm l a])
  also have "\<dots> = (Inr (JSONResponse ''Audio processed''), second_upload_state)"
    by (simp add: task_queue_put_def log_def second_upload_state_def session_state_def example_state_def abc_capture_file_def)
  finally show ?thesis .
qed

lemma session_state_wav_calls:
  "append_to_wav_file_calls (trace session_state) = [(''captures/abc.wav'', [1, 2], 16000)]"
  by (simp add: session_state_def append_to_wav_file_calls_def List.map_filter_def)

lemma second_upload_state_wav_calls:
  "append_to_wav_file_calls (trace second_upload_state) =
     [(''captures/abc.wav'', [1, 2], 16000), (''captures/abc.wav'', [3, 4], 16000)]"
  by (simp add: second_upload_state_def session_state_def append_to_wav_file_calls_def List.map_filter_def)

text \<open>
  Two uploads of raw samples for one capture id: the second one finds the session of the
  first and goes through \<^verbatim>\<open>append_to_wav_file\<close> again.
\<close>

theorem upload_chunk_write_wav_header_counterexample:
  "upload_chunk example_externals (Some ''chunk1.pcm'') [1, 2] ''abc'' ''20240101'' ''ios'' example_state =
     (Inr (JSONResponse ''Audio processed''), session_state)
   \<and> append_to_wav_file_calls (trace session_state) = [(''captures/abc.wav'', [1, 2], 16000)]
   \<and> upload_chunk example_externals (Some ''chunk2.pcm'') [3, 4] ''abc'' ''20240101'' ''ios'' session_state =
     (Inr (JSONResponse ''Audio processed''), second_upload_state)
   \<and> append_to_wav_file_calls (trace second_upload_state) =
     [(''captures/abc.wav'', [1, 2], 16000), (''captures/abc.wav'', [3, 4], 16000)]"
  by (simp add: first_pcm_upload second_pcm_upload session_state_wav_calls second_upload_state_wav_calls)

text \<open>
  Claim C10: for an upload with a supported extension, the format handed to the task
  constructor is \<open>wav\<close> or \<open>aac\<close>, so its assertion holds: once the session is resolved
  and the bytes are appended, the upload succeeds and queues a task of that format.
\<close>

theorem upload_chunk_task_format:
  assumes "file_extension_of filename = Inr uploaded_extension"
    and "uploaded_extension \<in> supported_upload_file_extensions"
    and "lookup_or_create_session ext capture_uuid timestamp device_type
           (if uploaded_extension = ''pcm'' then ''wav'' else uploaded_extension) st =
             (Inr (capture_file, detection_service), st1)"
    and "append_to_file ext (uploaded_extension = ''pcm'') capture_file content st1 = (Inr bytes_written, st2)"
  shows "\<exists>task.
           ProcessAudioChunkTask capture_file detection_service
             (if uploaded_extension = ''pcm'' then ''wav'' else uploaded_extension) (Some content) = Inr task \<and>
           (task_format task = ''wav'' \<or> task_format task = ''aac'') \<and>
           upload_chunk ext filename content capture_uuid timestamp device_type st =
             (Inr (JSONResponse ''Audio processed''),
              task_queue_put task (log (Log_bytes_appended (filepath capture_file) bytes_written) st2))"
proof -
  let ?fe = "if uploaded_extension = ''pcm'' then ''wav'' else uploaded_extension"
  let ?task = "\<lparr>task_capture_file = capture_file, task_detection_service = detection_service,
                 task_audio_data = Some content, task_format = ?fe\<rparr>"
  have f: "?fe = ''wav'' \<or> ?fe = ''aac''"
    using assms(2) by (auto simp: supported_upload_file_extensions_def)
  then have "ProcessAudioChunkTask capture_file detection_service ?fe (Some content) = Inr ?task"
    by (simp add: ProcessAudioChunkTask_def)
  moreover from f have "task_format ?task = ''wav'' \<or> task_format ?task = ''aac''"
    by simp
  moreover note upload_chunk_body_supported [OF assms]
  ultimately show ?thesis by blast
qed

theorem upload_chunk_task_format_witness:
  "\<exists>task. ProcessAudioChunkTask abc_capture_file (7::nat) ''wav'' (Some [1, 2]) = Inr task \<and>
     (task_format task = ''wav'' \<or> task_format task = ''aac'') \<and>
     (Inr (JSONResponse ''Audio processed''), session_state) =
       (Inr (JSONResponse ''Audio processed''),
        task_queue_put task
          (log (Log_bytes_appended (filepath abc_capture_file) 2)
             (example_state
                \<lparr>capture_files_by_id := [''abc'' \<mapsto> abc_capture_file],
                 conversation_detection_service_by_id := [''abc'' \<mapsto> 7],
                 trace := [Call_new_capture_file ''captures'' ''abc'' ''ios'' ''20240101'' ''wav'',
                           Call_new_detection_service ''captures/abc.wav'' ''20240101'',
                           Call_append_to_wav_file ''captures/abc.wav'' [1, 2] 16000],
                 world := ()\<rparr>)))"
proof -
  let ?st1 = "example_state
        \<lparr>capture_files_by_id := [''abc'' \<mapsto> abc_capture_file],
         conversation_detection_service_by_id := [''abc'' \<mapsto> 7],
         trace := [Call_new_capture_file ''captures'' ''abc'' ''ios'' ''20240101'' ''wav'',
                   Call_new_detection_service ''captures/abc.wav'' ''20240101'']\<rparr>"
  let ?st2 = "?st1\<lparr>trace := trace ?st1 @ [Call_append_to_wav_file ''captures/abc.wav'' [1, 2] 16000], world := ()\<rparr>"
  have l: "lookup_or_create_session example_externals ''abc'' ''20240101'' ''ios''
             (if ''pcm'' = ''pcm'' then ''wav'' else ''pcm'') example_state = (Inr (abc_capture_file, 7), ?st1)"
    by (simp add: new_session)
  have a: "append_to_file example_externals (''pcm'' = ''pcm'') abc_capture_file [1, 2] ?st1 = (Inr 2, ?st2)"
    by (simp add: example_append_to_wav_file)
  show ?thesis
    using upload_chunk_task_format [OF extension_pcm1 supp_pcm l a]
    by (simp add: first_pcm_upload)
qed

subsection \<open>Finalizing a capture\<close>

lemma process_capture_body_no_service:
  assumes "conversation_detection_service_by_id st capture_uuid = None"
  shows "\<exists>e st'. process_capture_body ext capture_uuid st = (Inl e, st') \<and>
           task_queue st' = task_queue st \<and>
           capture_handlers st' = capture_handlers st \<and>
           capture_files_by_id st' = capture_files_by_id st \<and>
           conversation_detection_service_by_id st' = conversation_detection_service_by_id st \<and>
           world st' = world st"
  using assms
  by (auto simp: process_capture_body_def Let_def log_def split: sum.split option.split)

text \<open>
  Claim C3, as the code has it: for every capture id without a detection service in
  memory, also when a matching file is on disk, \<open>process_capture\<close> answers with status
  500, submits no task and leaves the three dictionaries as they were.
\<close>

theorem process_capture_without_detection_service:
  assumes "conversation_detection_service_by_id st capture_uuid = None"
  shows "(\<exists>e. fst (process_capture ext capture_uuid st) = Inl (HTTPException 500 (Str_of e))) \<and>
         task_queue (snd (process_capture ext capture_uuid st)) = task_queue st \<and>
         capture_handlers (snd (process_capture ext capture_uuid st)) = capture_handlers st \<and>
         capture_files_by_id (snd (process_capture ext capture_uuid st)) = capture_files_by_id st \<and>
         conversation_detection_service_by_id (snd (process_capture ext capture_uuid st)) =
           conversation_detection_service_by_id st"
proof -
  from process_capture_body_no_service [OF assms, of ext]
  obtain e st' where b: "process_capture_body ext capture_uuid st = (Inl e, st')"
    and f: "task_queue st' = task_queue st" "capture_handlers st' = capture_handlers st"
      "capture_files_by_id st' = capture_files_by_id st"
      "conversation_detection_service_by_id st' = conversation_detection_service_by_id st"
    by blast
  show ?thesis
    by (simp add: process_capture_def b except_to_500_def log_def f)
qed

lemma one_file_found:
  "find_audio_filepath one_file_externals () ''captures'' ''abc'' = Inr (Some ''captures/20240101/ios/abc.wav'')"
  by (simp add: find_audio_filepath_def one_file_externals_def example_externals_def os_path_join_def)

lemma process_capture_lost_service:
  assumes "find_audio_filepath ext (world st) (capture_dir st) capture_uuid = Inr found"
    and "from_filepath ext found = Inr (Some capture_file)"
    and "conversation_detection_service_by_id st capture_uuid = None"
  shows "process_capture ext capture_uuid st =
           (Inl (HTTPException 500 (Str_of TypeError)),
            log Print_exc (log (Log_error_exn ''Failed to process'' TypeError)
              (log (Log_error (''Internal error: No conversation detection service exists for capture_uuid='' @ capture_uuid))
                (log (Log_info (''Found file to process: '' @ str_of_filepath found)) st))))"
proof -
  have c: "conversation_detection_service_by_id (log ev st) capture_uuid = None" for ev
    using assms(3) by (simp add: log_def)
  have "process_capture_body ext capture_uuid st =
          (Inl TypeError,
           log (Log_error (''Internal error: No conversation detection service exists for capture_uuid='' @ capture_uuid))
             (log (Log_info (''Found file to process: '' @ str_of_filepath found)) st))"
    unfolding process_capture_body_def Let_def by (simp add: assms(1,2) c)
  then show ?thesis
    by (simp add: process_capture_def except_to_500_def)
qed

lemma one_file_process_capture:
  "process_capture one_file_externals ''abc'' example_state =
     (Inl (HTTPException 500 (Str_of TypeError)),
      example_state\<lparr>trace :=
        [Log_info ''Found file to process: captures/20240101/ios/abc.wav'',
         Log_error ''Internal error: No conversation detection service exists for capture_uuid=abc'',
         Log_error_exn ''Failed to process'' TypeError,
         Print_exc]\<rparr>)"
proof -
  have f: "find_audio_filepath one_file_externals (world example_state) (capture_dir example_state) ''abc'' =
             Inr (Some ''captures/20240101/ios/abc.wav'')"
    by (simp add: example_state_def one_file_found)
  have g: "from_filepath one_file_externals (Some ''captures/20240101/ios/abc.wav'') =
             Inr (Some \<lparr>filepath = ''captures/20240101/ios/abc.wav'', file_timestamp = ''20240101'', device_type_value = ''ios''\<rparr>)"
    by (simp add: one_file_externals_def example_externals_def)
  have c: "conversation_detection_service_by_id example_state ''abc'' = None"
    by (simp add: example_state_def)
  show ?thesis
    unfolding process_capture_lost_service [OF f g c]
    by (simp add: log_def example_state_def str_of_filepath_def)
qed

theorem process_capture_without_detection_service_witness:
  "\<exists>e. fst (process_capture one_file_externals ''abc'' example_state) = Inl (HTTPException 500 (Str_of e))"
proof -
  have "conversation_detection_service_by_id example_state ''abc'' = None"
    by (simp add: example_state_def)
  from process_capture_without_detection_service [OF this, of one_file_externals]
  show ?thesis by blast
qed

text \<open>
  No session in memory and a matching file on disk: the file is found, but the route
  answers with status 500 and the task queue stays empty.
\<close>

theorem process_capture_recovery_counterexample:
  "capture_files_by_id example_state ''abc'' = None \<and>
   conversation_detection_service_by_id example_state ''abc'' = None \<and>
   find_audio_filepath one_file_externals (world example_state) (capture_dir example_state) ''abc'' =
     Inr (Some ''captures/20240101/ios/abc.wav'') \<and>
   fst (process_capture one_file_externals ''abc'' example_state) = Inl (HTTPException 500 (Str_of TypeError)) \<and>
   task_queue (snd (process_capture one_file_externals ''abc'' example_state)) = []"
  by (simp add: one_file_process_capture) (simp add: example_state_def one_file_found)

subsection \<open>Running a processing task\<close>

lemma call_ext_trace:
  assumes "call_ext ev g st = (r, st')"
  shows "trace st' = trace st @ [ev]"
    and "voice_sample_filepath st' = voice_sample_filepath st"
    and "user_name st' = user_name st"
    and "task_queue st' = task_queue st"
  using assms by (auto simp: call_ext_eq)

lemma create_segment_files_other_calls:
  assumes "create_segment_files ext capture_file format convos acc st = (r, st')"
    and "\<And>c u t x. f (Call_create_conversation_segment c u t x) = None"
  shows "List.map_filter f (trace st') = List.map_filter f (trace st)"
  using assms(1)
proof (induction convos arbitrary: acc st)
  case Nil
  then show ?case by simp
next
  case (Cons convo convos)
  obtain convo_filepaths segment_files where acc: "acc = (convo_filepaths, segment_files)"
    by (cases acc)
  obtain r1 st1 where c: "call_ext (Call_create_conversation_segment capture_file (uuid convo) (endpoints_start convo) format)
             (create_conversation_segment ext capture_file (uuid convo) (endpoints_start convo) format) st = (r1, st1)"
    by (cases "call_ext (Call_create_conversation_segment capture_file (uuid convo) (endpoints_start convo) format)
             (create_conversation_segment ext capture_file (uuid convo) (endpoints_start convo) format) st")
  have t: "List.map_filter f (trace st1) = List.map_filter f (trace st)"
    by (simp add: call_ext_trace(1) [OF c] map_filter_append map_filter_single assms(2))
  show ?case
  proof (cases r1)
    case (Inl e)
    with Cons.prems acc c t show ?thesis by simp
  next
    case (Inr segment_file)
    with Cons.prems acc c have
      "create_segment_files ext capture_file format convos
         (convo_filepaths @ [segment_filepath segment_file], segment_files @ [segment_file]) st1 = (r, st')"
      by simp
    from Cons.IH [OF this] t show ?thesis by simp
  qed
qed

lemma process_segment_files_other_calls:
  assumes "process_segment_files ext capture_file segment_files st = (r, st')"
    and "\<And>c s v n. f (Call_process_conversation_from_audio c s v n) = None"
  shows "List.map_filter f (trace st') = List.map_filter f (trace st)"
  using assms(1)
proof (induction segment_files arbitrary: st)
  case Nil
  then show ?case by simp
next
  case (Cons segment_file segment_files)
  obtain r1 st1 where c: "call_ext (Call_process_conversation_from_audio capture_file segment_file
                       (voice_sample_filepath st) (user_name st))
             (process_conversation_from_audio ext capture_file segment_file
                (voice_sample_filepath st) (user_name st)) st = (r1, st1)"
    by (cases "call_ext (Call_process_conversation_from_audio capture_file segment_file
                       (voice_sample_filepath st) (user_name st))
             (process_conversation_from_audio ext capture_file segment_file
                (voice_sample_filepath st) (user_name st)) st")
  have t: "List.map_filter f (trace st1) = List.map_filter f (trace st)"
    by (simp add: call_ext_trace(1) [OF c] map_filter_append map_filter_single assms(2))
  show ?case
  proof (cases r1)
    case None
    with Cons.prems c have "process_segment_files ext capture_file segment_files st1 = (r, st')"
      by simp
    from Cons.IH [OF this] t show ?thesis by simp
  next
    case (Some e)
    with Cons.prems c t show ?thesis by simp
  qed
qed

lemma process_segment_files_calls:
  assumes "process_segment_files ext capture_file segment_files st = (None, st')"
  shows "process_conversation_calls (trace st') = process_conversation_calls (trace st) @ segment_files"
  using assms
proof (induction segment_files arbitrary: st)
  case Nil
  then show ?case by simp
next
  case (Cons segment_file segment_files)
  obtain r1 st1 where c: "call_ext (Call_process_conversation_from_audio capture_file segment_file
                       (voice_sample_filepath st) (user_name st))
             (process_conversation_from_audio ext capture_file segment_file
                (voice_sample_filepath st) (user_name st)) st = (r1, st1)"
    by (cases "call_ext (Call_process_conversation_from_audio capture_file segment_file
                       (voice_sample_filepath st) (user_name st))
             (process_conversation_from_audio ext capture_file segment_file
                (voice_sample_filepath st) (user_name st)) st")
  have t: "process_conversation_calls (trace st1) = process_conversation_calls (trace st) @ [segment_file]"
    by (simp add: call_ext_trace(1) [OF c] process_conversation_calls_def map_filter_append map_filter_single)
  from Cons.prems c have r1: "r1 = None" and rest: "process_segment_files ext capture_file segment_files st1 = (None, st')"
    by (cases r1; simp)+
  from Cons.IH [OF rest] t show ?case by simp
qed

lemma process_segment_files_append:
  assumes "process_segment_files ext capture_file before st = (None, st1)"
  shows "process_segment_files ext capture_file (before @ rest) st =
           process_segment_files ext capture_file rest st1"
  using assms
proof (induction before arbitrary: st)
  case Nil
  then show ?case by simp
next
  case (Cons segment_file before)
  then show ?case
    by (auto split: prod.splits option.splits)
qed

lemma process_completed_other_calls:
  assumes "\<And>c s v n. f (Call_process_conversation_from_audio c s v n) = None"
    and "\<And>p e. f (Log_error_exn p e) = None"
  shows "List.map_filter f (trace (process_completed ext capture_file segment_files st)) =
           List.map_filter f (trace st)"
proof -
  obtain r st1 where p: "process_segment_files ext capture_file segment_files st = (r, st1)"
    by (cases "process_segment_files ext capture_file segment_files st")
  from process_segment_files_other_calls [OF p, of f] assms
  show ?thesis
    by (cases r) (simp_all add: process_completed_def p log_def map_filter_append map_filter_single)
qed

lemma send_progress_updates_other_calls:
  assumes "send_progress_updates ext capture_file updates st = (r, st')"
    and "\<And>t b y p. f (Call_send_notification t b y p) = None"
  shows "List.map_filter f (trace st') = List.map_filter f (trace st)"
  using assms(1)
proof (induction updates arbitrary: st)
  case Nil
  then show ?case by simp
next
  case (Cons progress updates)
  obtain r1 st1 where c: "call_ext (Call_send_notification ''New Conversation-in-Progress''
                       (''On device: '' @ device_type_value capture_file)
                       ''conversation_progress'' progress)
             (send_notification ext ''New Conversation-in-Progress''
                (''On device: '' @ device_type_value capture_file)
                ''conversation_progress'' progress) st = (r1, st1)"
    by (cases "call_ext (Call_send_notification ''New Conversation-in-Progress''
                       (''On device: '' @ device_type_value capture_file)
                       ''conversation_progress'' progress)
             (send_notification ext ''New Conversation-in-Progress''
                (''On device: '' @ device_type_value capture_file)
                ''conversation_progress'' progress) st")
  have t: "List.map_filter f (trace st1) = List.map_filter f (trace st)"
    by (simp add: call_ext_trace(1) [OF c] map_filter_append map_filter_single assms(2))
  show ?case
  proof (cases r1)
    case None
    with Cons.prems c have "send_progress_updates ext capture_file updates st1 = (r, st')"
      by simp
    from Cons.IH [OF this] t show ?thesis by simp
  next
    case (Some e)
    with Cons.prems c t show ?thesis by simp
  qed
qed


lemma handle_detection_results_other_calls:
  assumes "handle_detection_results ext task results st = (r, st')"
    and "\<And>c u t x. f (Call_create_conversation_segment c u t x) = None"
    and "\<And>d cs ps. f (Call_extract_conversations d cs ps) = None"
    and "\<And>c s v n. f (Call_process_conversation_from_audio c s v n) = None"
    and "\<And>p e. f (Log_error_exn p e) = None"
    and "\<And>t b y p. f (Call_send_notification t b y p) = None"
  shows "List.map_filter f (trace st') = List.map_filter f (trace st)"
proof -
  let ?cf = "task_capture_file task"
  obtain r1 st1 where c: "create_segment_files ext ?cf (task_format task) (completed results) ([], []) st = (r1, st1)"
    by (cases "create_segment_files ext ?cf (task_format task) (completed results) ([], []) st")
  have t1: "List.map_filter f (trace st1) = List.map_filter f (trace st)"
    by (rule create_segment_files_other_calls [OF c]) (rule assms(2))
  show ?thesis
  proof (cases r1)
    case (Inl e)
    with assms(1) c t1 show ?thesis by (simp add: handle_detection_results_def)
  next
    case (Inr lists)
    obtain convo_filepaths segment_files where lists: "lists = (convo_filepaths, segment_files)"
      by (cases lists)
    obtain r2 st2 where x: "call_ext (Call_extract_conversations (task_detection_service task) (completed results) convo_filepaths)
                     (extract_conversations ext (task_detection_service task) (completed results) convo_filepaths) st1 = (r2, st2)"
      by (cases "call_ext (Call_extract_conversations (task_detection_service task) (completed results) convo_filepaths)
                     (extract_conversations ext (task_detection_service task) (completed results) convo_filepaths) st1")
    have t2: "List.map_filter f (trace st2) = List.map_filter f (trace st)"
      by (simp add: call_ext_trace(1) [OF x] map_filter_append map_filter_single assms(3) t1)
    show ?thesis
    proof (cases r2)
      case (Some e)
      with assms(1) c Inr lists x t2 show ?thesis by (simp add: handle_detection_results_def)
    next
      case None
      with assms(1) c Inr lists x have
        s: "send_progress_updates ext ?cf (progress_updates ?cf results)
              (process_completed ext ?cf segment_files st2) = (r, st')"
        by (simp add: handle_detection_results_def Let_def)
      have "List.map_filter f (trace st') = List.map_filter f (trace (process_completed ext ?cf segment_files st2))"
        by (rule send_progress_updates_other_calls [OF s]) (rule assms(6))
      also have "\<dots> = List.map_filter f (trace st2)"
        by (rule process_completed_other_calls) (rule assms(4), rule assms(5))
      finally show ?thesis by (simp add: t2)
    qed
  qed
qed


lemma run_cases:
  assumes "run ext task st = (r, st')"
  obtains (raised) e where
      "fst (detect_conversations ext (task_detection_service task) (task_audio_data task) (task_format task)
              (task_audio_data task = None) (world st)) = Inl e"
      "r = Inl e"
      "trace st' = trace st @ [Call_detect_conversations (task_detection_service task) (task_audio_data task)
                                  (task_format task) (task_audio_data task = None)]"
  | (detected) results st1 where
      "fst (detect_conversations ext (task_detection_service task) (task_audio_data task) (task_format task)
              (task_audio_data task = None) (world st)) = Inr results"
      "trace st1 = trace st @ [Call_detect_conversations (task_detection_service task) (task_audio_data task)
                                  (task_format task) (task_audio_data task = None)]"
      "handle_detection_results ext task results st1 = (r, st')"
proof -
  let ?ev = "Call_detect_conversations (task_detection_service task) (task_audio_data task)
               (task_format task) (task_audio_data task = None)"
  let ?g = "detect_conversations ext (task_detection_service task) (task_audio_data task) (task_format task)
              (task_audio_data task = None)"
  obtain r1 st1 where c: "call_ext ?ev ?g st = (r1, st1)"
    by (cases "call_ext ?ev ?g st")
  then have r1: "r1 = fst (?g (world st))" and t: "trace st1 = trace st @ [?ev]"
    by (simp_all add: call_ext_eq)
  show thesis
  proof (cases r1)
    case (Inl e)
    with assms c have "r = Inl e" "st' = st1"
      by (simp_all add: run_def Let_def)
    with Inl r1 t show thesis by (intro raised [of e]) simp_all
  next
    case (Inr results)
    with assms c have "handle_detection_results ext task results st1 = (r, st')"
      by (simp add: run_def Let_def)
    with Inr r1 t show thesis by (intro detected [of results st1]) simp_all
  qed
qed

lemma process_capture_Inr:
  assumes "process_capture ext capture_uuid st = (Inr response, st')"
  obtains capture_file detection_service where
    "conversation_detection_service_by_id st capture_uuid = Some detection_service"
    "task_queue st' = task_queue st @
       [\<lparr>task_capture_file = capture_file, task_detection_service = detection_service,
         task_audio_data = None, task_format = lstrip_dot (snd (splitext (filepath capture_file)))\<rparr>]"
    "capture_files_by_id st' = (capture_files_by_id st)(capture_uuid := None)"
    "conversation_detection_service_by_id st' = (conversation_detection_service_by_id st)(capture_uuid := None)"
    "capture_handlers st' = capture_handlers st"
    "response = JSONResponse ''Conversation processed''"
proof -
  from assms have body: "process_capture_body ext capture_uuid st = (Inr response, st')"
    by (simp add: process_capture_def except_to_500_Inr)
  then obtain found where f: "find_audio_filepath ext (world st) (capture_dir st) capture_uuid = Inr found"
    by (cases "find_audio_filepath ext (world st) (capture_dir st) capture_uuid")
      (auto simp: process_capture_body_def)
  let ?st1 = "log (Log_info (''Found file to process: '' @ str_of_filepath found)) st"
  from body f obtain capture_file where g: "from_filepath ext found = Inr (Some capture_file)"
    by (cases "from_filepath ext found")
      (auto simp: process_capture_body_def Let_def split: option.splits)
  from body f g obtain detection_service where
    d: "conversation_detection_service_by_id ?st1 capture_uuid = Some detection_service"
    by (cases "conversation_detection_service_by_id ?st1 capture_uuid")
      (auto simp: process_capture_body_def Let_def)
  let ?fmt = "lstrip_dot (snd (splitext (filepath capture_file)))"
  let ?task = "\<lparr>task_capture_file = capture_file, task_detection_service = detection_service,
                 task_audio_data = None, task_format = ?fmt\<rparr>"
  from body f g d have t: "ProcessAudioChunkTask capture_file detection_service ?fmt None = Inr ?task"
    by (cases "?fmt = ''wav'' \<or> ?fmt = ''aac''")
      (auto simp: process_capture_body_def Let_def ProcessAudioChunkTask_def)
  from body f g d t have st': "st' =
      (let st2 = task_queue_put ?task ?st1;
           st3 = (if capture_uuid \<in> dom (capture_files_by_id st2)
                  then st2\<lparr>capture_files_by_id := (capture_files_by_id st2)(capture_uuid := None)\<rparr>
                  else st2)
       in if capture_uuid \<in> dom (conversation_detection_service_by_id st3)
          then st3\<lparr>conversation_detection_service_by_id :=
                     (conversation_detection_service_by_id st3)(capture_uuid := None)\<rparr>
          else st3)"
    and resp: "response = JSONResponse ''Conversation processed''"
    by (auto simp: process_capture_body_def Let_def)
  from d have d': "conversation_detection_service_by_id st capture_uuid = Some detection_service"
    by (simp add: log_def)
  have q: "task_queue st' = task_queue st @ [?task]"
    by (simp add: st' Let_def task_queue_put_def log_def)
  have c: "capture_files_by_id st' = (capture_files_by_id st)(capture_uuid := None)"
    by (auto simp: st' Let_def task_queue_put_def log_def fun_eq_iff)
  have s: "conversation_detection_service_by_id st' = (conversation_detection_service_by_id st)(capture_uuid := None)"
    by (auto simp: st' Let_def task_queue_put_def log_def fun_eq_iff)
  have h: "capture_handlers st' = capture_handlers st"
    by (simp add: st' Let_def task_queue_put_def log_def)
  from d' q c s h resp show thesis by (rule that)
qed

lemma run_detect_conversations_trace:
  "detect_conversations_calls (trace (snd (run ext task st))) =
     detect_conversations_calls (trace st) @
       [(task_detection_service task, task_audio_data task, task_format task, task_audio_data task = None)]
   \<and> (process_capture ext capture_uuid st0 = (Inr response, st0') \<longrightarrow>
        (\<exists>queued. task_queue st0' = task_queue st0 @ [queued] \<and> task_audio_data queued = None))"
proof
  obtain r st' where run: "run ext task st = (r, st')"
    by (cases "run ext task st")
  let ?call = "(task_detection_service task, task_audio_data task, task_format task, task_audio_data task = None)"
  from run have "detect_conversations_calls (trace st') = detect_conversations_calls (trace st) @ [?call]"
  proof (cases rule: run_cases)
    case (raised e)
    then show ?thesis
      by (simp add: detect_conversations_calls_def map_filter_append map_filter_single)
  next
    case (detected results st1)
    have "List.map_filter detect_conversations_call (trace st') =
            List.map_filter detect_conversations_call (trace st1)"
      by (rule handle_detection_results_other_calls [OF detected(3)]) simp_all
    with detected(2) show ?thesis
      by (simp add: detect_conversations_calls_def map_filter_append map_filter_single)
  qed
  with run show "detect_conversations_calls (trace (snd (run ext task st))) =
     detect_conversations_calls (trace st) @ [?call]"
    by simp
next
  show "process_capture ext capture_uuid st0 = (Inr response, st0') \<longrightarrow>
        (\<exists>queued. task_queue st0' = task_queue st0 @ [queued] \<and> task_audio_data queued = None)"
  proof
    assume "process_capture ext capture_uuid st0 = (Inr response, st0')"
    then obtain capture_file detection_service where
      "task_queue st0' = task_queue st0 @
         [\<lparr>task_capture_file = capture_file, task_detection_service = detection_service,
           task_audio_data = None, task_format = lstrip_dot (snd (splitext (filepath capture_file)))\<rparr>]"
      by (rule process_capture_Inr)
    then show "\<exists>queued. task_queue st0' = task_queue st0 @ [queued] \<and> task_audio_data queued = None"
      by simp
  qed
qed


text \<open>
  Claim C1, as the code has it: the \<^verbatim>\<open>try\<close> statement encloses the whole loop. When
  the processor raises for one segment file, after the files before it were processed,
  the exception is logged once and the loop is over: the processor has been called for
  the files up to the failing one and for none of the files after it.
\<close>

theorem process_completed_stops_at_failure:
  assumes "process_segment_files ext capture_file before st = (None, st1)"
    and "fst (process_conversation_from_audio ext capture_file failing
                (voice_sample_filepath st1) (user_name st1) (world st1)) = Some e"
  shows "process_conversation_calls (trace (process_completed ext capture_file (before @ failing # after) st)) =
           process_conversation_calls (trace st) @ before @ [failing]
       \<and> logged_exceptions (trace (process_completed ext capture_file (before @ failing # after) st)) =
           logged_exceptions (trace st) @ [(''Error processing conversation'', e)]
       \<and> process_completed ext capture_file (before @ failing # after) st =
           process_completed ext capture_file (before @ [failing]) st"
proof -
  let ?ev = "Call_process_conversation_from_audio capture_file failing (voice_sample_filepath st1) (user_name st1)"
  let ?g = "process_conversation_from_audio ext capture_file failing (voice_sample_filepath st1) (user_name st1)"
  let ?st2 = "st1\<lparr>trace := trace st1 @ [?ev], world := snd (?g (world st1))\<rparr>"
  have c: "call_ext ?ev ?g st1 = (Some e, ?st2)"
    using assms(2) by (simp add: call_ext_eq)
  have stop: "process_segment_files ext capture_file (before @ failing # rest) st = (Some e, ?st2)" for rest
    by (simp add: process_segment_files_append [OF assms(1)] c)
  have pc: "process_completed ext capture_file (before @ failing # rest) st =
              log (Log_error_exn ''Error processing conversation'' e) ?st2" for rest
    by (simp add: process_completed_def stop)
  have calls1: "process_conversation_calls (trace st1) = process_conversation_calls (trace st) @ before"
    by (rule process_segment_files_calls [OF assms(1)])
  have logs1: "logged_exceptions (trace st1) = logged_exceptions (trace st)"
    unfolding logged_exceptions_def
    by (rule process_segment_files_other_calls [OF assms(1)]) simp
  have "process_conversation_calls (trace (log (Log_error_exn ''Error processing conversation'' e) ?st2)) =
          process_conversation_calls (trace st) @ before @ [failing]"
    using calls1 by (simp add: log_def process_conversation_calls_def map_filter_append map_filter_single)
  moreover have "logged_exceptions (trace (log (Log_error_exn ''Error processing conversation'' e) ?st2)) =
          logged_exceptions (trace st) @ [(''Error processing conversation'', e)]"
    using logs1 by (simp add: log_def logged_exceptions_def map_filter_append map_filter_single)
  ultimately show ?thesis
    by (simp add: pc [of after] pc [of "[]"])
qed

lemma example_run:
  "run failing_processor_externals example_task example_state =
     (Inr (), example_state\<lparr>trace := example_run_trace\<rparr>)"
  unfolding run_def handle_detection_results_def Let_def
  by (simp add: failing_processor_externals_def example_externals_def example_task_def example_state_def
        example_results_def example_run_trace_def abc_capture_file_def call_ext_def process_completed_def
        log_def progress_updates_def completed_progress_def in_progress_progress_def)

lemma example_detect:
  "fst (detect_conversations failing_processor_externals (task_detection_service example_task)
          (task_audio_data example_task) (task_format example_task)
          (task_audio_data example_task = None) (world example_state)) = Inr example_results"
  by (simp add: failing_processor_externals_def example_externals_def)

lemma example_process_first:
  "process_segment_files failing_processor_externals abc_capture_file [\<lparr>segment_filepath = ''c1.wav''\<rparr>] example_state =
     (None, example_state\<lparr>trace := [Call_process_conversation_from_audio abc_capture_file
                                        \<lparr>segment_filepath = ''c1.wav''\<rparr> ''voice.wav'' ''Bob'']\<rparr>)"
  by (simp add: failing_processor_externals_def example_externals_def example_state_def call_ext_def)

lemma example_process_second:
  "fst (process_conversation_from_audio failing_processor_externals abc_capture_file \<lparr>segment_filepath = ''c2.wav''\<rparr>
          (voice_sample_filepath (example_state\<lparr>trace := tr\<rparr>)) (user_name (example_state\<lparr>trace := tr\<rparr>))
          (world (example_state\<lparr>trace := tr\<rparr>))) = Some (External_error ''transcription failed'')"
  by (simp add: failing_processor_externals_def example_externals_def)

theorem process_completed_stops_at_failure_witness:
  "process_conversation_calls
     (trace (process_completed failing_processor_externals abc_capture_file
        ([\<lparr>segment_filepath = ''c1.wav''\<rparr>] @ \<lparr>segment_filepath = ''c2.wav''\<rparr> # [\<lparr>segment_filepath = ''c3.wav''\<rparr>])
        example_state)) =
     process_conversation_calls (trace example_state) @
       [\<lparr>segment_filepath = ''c1.wav''\<rparr>] @ [\<lparr>segment_filepath = ''c2.wav''\<rparr>]
   \<and> logged_exceptions
     (trace (process_completed failing_processor_externals abc_capture_file
        ([\<lparr>segment_filepath = ''c1.wav''\<rparr>] @ \<lparr>segment_filepath = ''c2.wav''\<rparr> # [\<lparr>segment_filepath = ''c3.wav''\<rparr>])
        example_state)) =
     logged_exceptions (trace example_state) @
       [(''Error processing conversation'', External_error ''transcription failed'')]"
  using process_completed_stops_at_failure [OF example_process_first example_process_second,
      of "[\<lparr>segment_filepath = ''c3.wav''\<rparr>]"]
  by blast

text \<open>
  A task with three completed conversations whose processor fails for the second: the
  third segment file is created and its progress update is sent, but the processor is
  never called for it.
\<close>

theorem process_completed_counterexample:
  "run failing_processor_externals example_task example_state =
     (Inr (), example_state\<lparr>trace := example_run_trace\<rparr>)
   \<and> Call_create_conversation_segment abc_capture_file ''c3'' 40 ''wav'' \<in> set example_run_trace
   \<and> process_conversation_calls example_run_trace =
       [\<lparr>segment_filepath = ''c1.wav''\<rparr>, \<lparr>segment_filepath = ''c2.wav''\<rparr>]
   \<and> logged_exceptions example_run_trace =
       [(''Error processing conversation'', External_error ''transcription failed'')]"
  by (simp add: example_run)
    (simp add: example_run_trace_def process_conversation_calls_def logged_exceptions_def List.map_filter_def)

lemma process_capture_success:
  assumes "find_audio_filepath ext (world st) (capture_dir st) capture_uuid = Inr found"
    and "from_filepath ext found = Inr (Some capture_file)"
    and "conversation_detection_service_by_id st capture_uuid = Some detection_service"
    and "lstrip_dot (snd (splitext (filepath capture_file))) = ''wav'' \<or>
         lstrip_dot (snd (splitext (filepath capture_file))) = ''aac''"
  shows "process_capture ext capture_uuid st =
           (Inr (JSONResponse ''Conversation processed''),
            st\<lparr>trace := trace st @ [Log_info (''Found file to process: '' @ str_of_filepath found)],
               task_queue := task_queue st @
                 [\<lparr>task_capture_file = capture_file, task_detection_service = detection_service,
                   task_audio_data = None,
                   task_format = lstrip_dot (snd (splitext (filepath capture_file)))\<rparr>],
               capture_files_by_id := (capture_files_by_id st)(capture_uuid := None),
               conversation_detection_service_by_id :=
                 (conversation_detection_service_by_id st)(capture_uuid := None)\<rparr>)"
proof -
  let ?fmt = "lstrip_dot (snd (splitext (filepath capture_file)))"
  let ?task = "\<lparr>task_capture_file = capture_file, task_detection_service = detection_service,
                 task_audio_data = None, task_format = ?fmt\<rparr>"
  have t: "ProcessAudioChunkTask capture_file detection_service ?fmt None = Inr ?task"
    using assms(4) by (auto simp: ProcessAudioChunkTask_def)
  have d: "conversation_detection_service_by_id (log ev st) capture_uuid = Some detection_service" for ev
    using assms(3) by (simp add: log_def)
  have idem: "(capture_files_by_id st)(capture_uuid := None) = capture_files_by_id st"
    if "capture_uuid \<notin> dom (capture_files_by_id st)"
    using that by (auto simp: fun_eq_iff)
  have "process_capture_body ext capture_uuid st =
          (Inr (JSONResponse ''Conversation processed''),
            st\<lparr>trace := trace st @ [Log_info (''Found file to process: '' @ str_of_filepath found)],
               task_queue := task_queue st @ [?task],
               capture_files_by_id := (capture_files_by_id st)(capture_uuid := None),
               conversation_detection_service_by_id :=
                 (conversation_detection_service_by_id st)(capture_uuid := None)\<rparr>)"
    unfolding process_capture_body_def Let_def
    using assms(3) idem
    by (simp add: assms(1,2) d t task_queue_put_def log_def domI)
  then show ?thesis
    by (simp add: process_capture_def except_to_500_def)
qed

lemma extension_abc_wav: "lstrip_dot (snd (splitext ''captures/20240101/ios/abc.wav'')) = ''wav''"
  by (simp add: splitext_def rfind_def lstrip_dot_def splitext_loop.simps)

lemma example_process_capture:
  "process_capture one_file_externals ''abc'' session_state =
     (Inr (JSONResponse ''Conversation processed''), finalized_state)"
proof -
  let ?cf = "\<lparr>filepath = ''captures/20240101/ios/abc.wav'', file_timestamp = ''20240101'',
              device_type_value = ''ios''\<rparr>"
  have f: "find_audio_filepath one_file_externals (world session_state) (capture_dir session_state) ''abc'' =
             Inr (Some ''captures/20240101/ios/abc.wav'')"
    by (simp add: session_state_def example_state_def one_file_found)
  have g: "from_filepath one_file_externals (Some ''captures/20240101/ios/abc.wav'') = Inr (Some ?cf)"
    by (simp add: one_file_externals_def example_externals_def)
  have c: "conversation_detection_service_by_id session_state ''abc'' = Some 7"
    by (simp add: session_state_def)
  have e: "lstrip_dot (snd (splitext (filepath ?cf))) = ''wav'' \<or> lstrip_dot (snd (splitext (filepath ?cf))) = ''aac''"
    by (simp add: extension_abc_wav)
  show ?thesis
    unfolding process_capture_success [OF f g c e]
    by (simp add: finalized_state_def session_state_def example_state_def str_of_filepath_def extension_abc_wav)
qed

subsection \<open>Completing and interrupting a stream\<close>

lemma finish_capture_session_eq:
  assumes "handler_file_extension capture_handler = ''wav'' \<or> handler_file_extension capture_handler = ''aac''"
  shows "finish_capture_session capture_handler st =
           (Inr (),
            st\<lparr>task_queue := task_queue st @
                 [\<lparr>task_capture_file = handler_capture_file capture_handler,
                   task_detection_service = handler_detection_service capture_handler,
                   task_audio_data = None,
                   task_format = handler_file_extension capture_handler\<rparr>]\<rparr>)"
  using assms by (auto simp: finish_capture_session_def ProcessAudioChunkTask_def task_queue_put_def)

lemma finish_capture_session_frame:
  assumes "finish_capture_session capture_handler st = (r, st')"
  shows "capture_handlers st' = capture_handlers st"
    and "capture_files_by_id st' = capture_files_by_id st"
    and "conversation_detection_service_by_id st' = conversation_detection_service_by_id st"
  using assms
  by (auto simp: finish_capture_session_def ProcessAudioChunkTask_def task_queue_put_def split: if_splits)

lemma complete_audio_frame:
  "capture_handlers (snd (complete_audio capture_uuid st)) = capture_handlers st"
  "capture_files_by_id (snd (complete_audio capture_uuid st)) = capture_files_by_id st"
  "conversation_detection_service_by_id (snd (complete_audio capture_uuid st)) =
     conversation_detection_service_by_id st"
proof -
  let ?st0 = "log (Log_info (''Completing audio capture for '' @ capture_uuid)) st"
  have "capture_handlers (snd (complete_audio capture_uuid st)) = capture_handlers st \<and>
        capture_files_by_id (snd (complete_audio capture_uuid st)) = capture_files_by_id st \<and>
        conversation_detection_service_by_id (snd (complete_audio capture_uuid st)) =
          conversation_detection_service_by_id st"
  proof (cases "capture_handlers ?st0 capture_uuid")
    case None
    then show ?thesis by (simp add: complete_audio_def Let_def log_def)
  next
    case (Some capture_handler)
    obtain r st1 where f: "finish_capture_session capture_handler ?st0 = (r, st1)"
      by (cases "finish_capture_session capture_handler ?st0")
    from finish_capture_session_frame [OF f] Some f show ?thesis
      by (cases r) (simp_all add: complete_audio_def Let_def log_def)
  qed
  then show
    "capture_handlers (snd (complete_audio capture_uuid st)) = capture_handlers st"
    "capture_files_by_id (snd (complete_audio capture_uuid st)) = capture_files_by_id st"
    "conversation_detection_service_by_id (snd (complete_audio capture_uuid st)) =
       conversation_detection_service_by_id st"
    by simp_all
qed

lemma complete_audio_success:
  assumes "capture_handlers st capture_uuid = Some capture_handler"
    and "handler_file_extension capture_handler = ''wav'' \<or> handler_file_extension capture_handler = ''aac''"
  shows "complete_audio capture_uuid st =
           (Inr (JSONResponse ''Audio processed''),
            st\<lparr>trace := trace st @ [Log_info (''Completing audio capture for '' @ capture_uuid)],
               task_queue := task_queue st @
                 [\<lparr>task_capture_file = handler_capture_file capture_handler,
                   task_detection_service = handler_detection_service capture_handler,
                   task_audio_data = None,
                   task_format = handler_file_extension capture_handler\<rparr>]\<rparr>)"
proof -
  have h: "capture_handlers (log ev st) capture_uuid = Some capture_handler" for ev
    using assms(1) by (simp add: log_def)
  show ?thesis
    unfolding complete_audio_def Let_def
    by (simp add: h finish_capture_session_eq [OF assms(2)]) (simp add: log_def)
qed

text \<open>
  Claim C8: \<open>complete_audio\<close> leaves the three dictionaries as they are, whatever its
  outcome; for a registered handler it submits the final task (no bytes) and answers
  "Audio processed", and the capture id is still registered afterwards. The route that
  removes entries is \<open>process_capture\<close>: after it succeeds, the capture id is in neither
  \<open>capture_files_by_id\<close> nor \<open>conversation_detection_service_by_id\<close>.
\<close>

theorem complete_audio_keeps_session:
  "capture_handlers (snd (complete_audio capture_uuid st)) = capture_handlers st
   \<and> capture_files_by_id (snd (complete_audio capture_uuid st)) = capture_files_by_id st
   \<and> conversation_detection_service_by_id (snd (complete_audio capture_uuid st)) =
       conversation_detection_service_by_id st
   \<and> (capture_handlers st capture_uuid = Some capture_handler \<and>
       (handler_file_extension capture_handler = ''wav'' \<or> handler_file_extension capture_handler = ''aac'') \<longrightarrow>
       fst (complete_audio capture_uuid st) = Inr (JSONResponse ''Audio processed'') \<and>
       task_queue (snd (complete_audio capture_uuid st)) =
         task_queue st @
           [\<lparr>task_capture_file = handler_capture_file capture_handler,
             task_detection_service = handler_detection_service capture_handler,
             task_audio_data = None,
             task_format = handler_file_extension capture_handler\<rparr>] \<and>
       capture_handlers (snd (complete_audio capture_uuid st)) capture_uuid = Some capture_handler)
   \<and> (process_capture ext capture_uuid st0 = (Inr response, st0') \<longrightarrow>
       capture_files_by_id st0' capture_uuid = None \<and>
       conversation_detection_service_by_id st0' capture_uuid = None)"
proof (intro conjI impI)
  show "capture_handlers (snd (complete_audio capture_uuid st)) = capture_handlers st"
    by (rule complete_audio_frame)
  show "capture_files_by_id (snd (complete_audio capture_uuid st)) = capture_files_by_id st"
    by (rule complete_audio_frame)
  show "conversation_detection_service_by_id (snd (complete_audio capture_uuid st)) =
          conversation_detection_service_by_id st"
    by (rule complete_audio_frame)
next
  assume h: "capture_handlers st capture_uuid = Some capture_handler \<and>
       (handler_file_extension capture_handler = ''wav'' \<or> handler_file_extension capture_handler = ''aac'')"
  then have c: "complete_audio capture_uuid st =
           (Inr (JSONResponse ''Audio processed''),
            st\<lparr>trace := trace st @ [Log_info (''Completing audio capture for '' @ capture_uuid)],
               task_queue := task_queue st @
                 [\<lparr>task_capture_file = handler_capture_file capture_handler,
                   task_detection_service = handler_detection_service capture_handler,
                   task_audio_data = None,
                   task_format = handler_file_extension capture_handler\<rparr>]\<rparr>)"
    by (intro complete_audio_success) simp_all
  show "fst (complete_audio capture_uuid st) = Inr (JSONResponse ''Audio processed'')"
    by (simp add: c)
  show "task_queue (snd (complete_audio capture_uuid st)) =
         task_queue st @
           [\<lparr>task_capture_file = handler_capture_file capture_handler,
             task_detection_service = handler_detection_service capture_handler,
             task_audio_data = None,
             task_format = handler_file_extension capture_handler\<rparr>]"
    by (simp add: c)
  show "capture_handlers (snd (complete_audio capture_uuid st)) capture_uuid = Some capture_handler"
    using h by (simp add: c)
next
  assume "process_capture ext capture_uuid st0 = (Inr response, st0')"
  then obtain capture_file detection_service where
    "capture_files_by_id st0' = (capture_files_by_id st0)(capture_uuid := None)"
    "conversation_detection_service_by_id st0' = (conversation_detection_service_by_id st0)(capture_uuid := None)"
    by (rule process_capture_Inr)
  then show "capture_files_by_id st0' capture_uuid = None"
    and "conversation_detection_service_by_id st0' capture_uuid = None"
    by simp_all
qed

theorem complete_audio_keeps_session_witness:
  "fst (complete_audio ''abc'' streaming_state) = Inr (JSONResponse ''Audio processed'')
   \<and> task_queue (snd (complete_audio ''abc'' streaming_state)) =
       task_queue streaming_state @
         [\<lparr>task_capture_file = handler_capture_file abc_handler,
           task_detection_service = handler_detection_service abc_handler,
           task_audio_data = None,
           task_format = handler_file_extension abc_handler\<rparr>]
   \<and> capture_handlers (snd (complete_audio ''abc'' streaming_state)) ''abc'' = Some abc_handler
   \<and> capture_files_by_id finalized_state ''abc'' = None
   \<and> conversation_detection_service_by_id finalized_state ''abc'' = None"
proof -
  have h: "capture_handlers streaming_state ''abc'' = Some abc_handler"
    by (simp add: streaming_state_def)
  have e: "handler_file_extension abc_handler = ''wav'' \<or> handler_file_extension abc_handler = ''aac''"
    by (simp add: abc_handler_def)
  show ?thesis
    using complete_audio_keeps_session [where capture_uuid = "''abc''" and st = streaming_state
        and capture_handler = abc_handler and ext = one_file_externals and ?st0.0 = session_state
        and response = "JSONResponse ''Conversation processed''" and st0' = finalized_state]
      h e example_process_capture
    by blast
qed





lemma example_streaming_body:
  "streaming_post_body example_externals \<lparr>chunks = [[1, 2]], disconnects = True\<rparr> ''abc'' ''ios''
     (log (Log_info ''Client connected'') example_state) = (Inl ClientDisconnect, streaming_state)"
  by (simp add: streaming_post_body_def example_externals_def example_state_def log_def call_ext_def
        handle_audio_data_def ProcessAudioChunkTask_def task_queue_put_def streaming_state_def
        abc_handler_def)

subsection \<open>What the collaborators receive\<close>

lemma faithful_refl: "faithful st st"
  by (simp add: faithful_def)

lemma faithful_trans: "faithful st st1 \<Longrightarrow> faithful st1 st2 \<Longrightarrow> faithful st st2"
  by (auto simp: faithful_def)

lemma faithful_log: "\<not> is_call ev \<Longrightarrow> faithful st (log ev st)"
  by (simp add: faithful_def log_def received_def)

lemma faithful_task_queue_put: "faithful st (task_queue_put t st)"
  by (simp add: faithful_def task_queue_put_def received_def)

lemma faithful_update:
  "faithful st (st\<lparr>capture_files_by_id := m\<rparr>)"
  "faithful st (st\<lparr>conversation_detection_service_by_id := d\<rparr>)"
  "faithful st (st\<lparr>capture_handlers := h\<rparr>)"
  by (simp_all add: faithful_def received_def)

lemma call_ext_record_call:
  assumes "call_ext ev (record_call ev' f) st = (r, st')"
  shows "trace st' = trace st @ [ev]" and "received st' = received st @ [ev']"
    and "r = fst (f (fst (world st)))"
  using assms
  by (auto simp: call_ext_eq record_call_def received_def split: prod.splits)

lemma faithful_call_ext:
  assumes "call_ext ev (record_call ev f) st = (r, st')" and "is_call ev"
  shows "faithful st st'"
  using call_ext_record_call(1,2) [OF assms(1)] assms(2)
  by (simp add: faithful_def)

lemma map_filter_calls:
  assumes "\<And>ev. \<not> is_call ev \<Longrightarrow> f ev = None"
  shows "List.map_filter f (filter is_call evs) = List.map_filter f evs"
  using assms by (induction evs) (auto simp: List.map_filter_def)

lemma faithful_received:
  assumes "faithful st st'"
    and "\<And>ev. \<not> is_call ev \<Longrightarrow> f ev = None"
    and "List.map_filter f (trace st') = List.map_filter f (trace st) @ new"
  shows "List.map_filter f (received st') = List.map_filter f (received st) @ new"
proof -
  from assms(1) obtain evs where t: "trace st' = trace st @ evs"
    and r: "received st' = received st @ filter is_call evs"
    by (auto simp: faithful_def)
  from assms(3) t have "List.map_filter f evs = new"
    by (simp add: map_filter_append)
  with r show ?thesis
    by (simp add: map_filter_append map_filter_calls [of f, OF assms(2)])
qed

lemma faithful_create_segment_files:
  assumes "create_segment_files (recording ext) capture_file format convos acc st = (r, st')"
  shows "faithful st st'"
  using assms
proof (induction convos arbitrary: acc st)
  case Nil
  then show ?case by (simp add: faithful_refl)
next
  case (Cons convo convos)
  obtain convo_filepaths segment_files where acc: "acc = (convo_filepaths, segment_files)"
    by (cases acc)
  let ?ev = "Call_create_conversation_segment capture_file (uuid convo) (endpoints_start convo) format"
  let ?g = "create_conversation_segment ext capture_file (uuid convo) (endpoints_start convo) format"
  obtain r1 st1 where c: "call_ext ?ev (record_call ?ev ?g) st = (r1, st1)"
    by (cases "call_ext ?ev (record_call ?ev ?g) st")
  have f1: "faithful st st1"
    by (rule faithful_call_ext [OF c]) simp
  have g: "create_conversation_segment (recording ext) capture_file (uuid convo) (endpoints_start convo) format =
             record_call ?ev ?g"
    by (simp add: recording_def)
  show ?case
  proof (cases r1)
    case (Inl e)
    with Cons.prems acc c g f1 show ?thesis by simp
  next
    case (Inr segment_file)
    with Cons.prems acc c g have
      "create_segment_files (recording ext) capture_file format convos
         (convo_filepaths @ [segment_filepath segment_file], segment_files @ [segment_file]) st1 = (r, st')"
      by simp
    from Cons.IH [OF this] f1 show ?thesis by (rule faithful_trans [rotated])
  qed
qed

lemma faithful_process_segment_files:
  assumes "process_segment_files (recording ext) capture_file segment_files st = (r, st')"
  shows "faithful st st'"
  using assms
proof (induction segment_files arbitrary: st)
  case Nil
  then show ?case by (simp add: faithful_refl)
next
  case (Cons segment_file segment_files)
  let ?ev = "Call_process_conversation_from_audio capture_file segment_file (voice_sample_filepath st) (user_name st)"
  let ?g = "process_conversation_from_audio ext capture_file segment_file (voice_sample_filepath st) (user_name st)"
  obtain r1 st1 where c: "call_ext ?ev (record_call ?ev ?g) st = (r1, st1)"
    by (cases "call_ext ?ev (record_call ?ev ?g) st")
  have f1: "faithful st st1"
    by (rule faithful_call_ext [OF c]) simp
  have g: "process_conversation_from_audio (recording ext) capture_file segment_file
             (voice_sample_filepath st) (user_name st) = record_call ?ev ?g"
    by (simp add: recording_def)
  show ?case
  proof (cases r1)
    case None
    with Cons.prems c g have "process_segment_files (recording ext) capture_file segment_files st1 = (r, st')"
      by simp
    from Cons.IH [OF this] f1 show ?thesis by (rule faithful_trans [rotated])
  next
    case (Some e)
    with Cons.prems c g f1 show ?thesis by simp
  qed
qed

lemma faithful_process_completed:
  "faithful st (process_completed (recording ext) capture_file segment_files st)"
proof -
  obtain r st1 where p: "process_segment_files (recording ext) capture_file segment_files st = (r, st1)"
    by (cases "process_segment_files (recording ext) capture_file segment_files st")
  from faithful_process_segment_files [OF p] have f: "faithful st st1" .
  show ?thesis
  proof (cases r)
    case None
    with f p show ?thesis by (simp add: process_completed_def)
  next
    case (Some e)
    have "faithful st1 (log (Log_error_exn ''Error processing conversation'' e) st1)"
      by (rule faithful_log) simp
    with f have "faithful st (log (Log_error_exn ''Error processing conversation'' e) st1)"
      by (rule faithful_trans)
    with Some p show ?thesis by (simp add: process_completed_def)
  qed
qed

lemma faithful_send_progress_updates:
  assumes "send_progress_updates (recording ext) capture_file updates st = (r, st')"
  shows "faithful st st'"
  using assms
proof (induction updates arbitrary: st)
  case Nil
  then show ?case by (simp add: faithful_refl)
next
  case (Cons progress updates)
  let ?ev = "Call_send_notification ''New Conversation-in-Progress''
               (''On device: '' @ device_type_value capture_file) ''conversation_progress'' progress"
  let ?g = "send_notification ext ''New Conversation-in-Progress''
               (''On device: '' @ device_type_value capture_file) ''conversation_progress'' progress"
  obtain r1 st1 where c: "call_ext ?ev (record_call ?ev ?g) st = (r1, st1)"
    by (cases "call_ext ?ev (record_call ?ev ?g) st")
  have f1: "faithful st st1"
    by (rule faithful_call_ext [OF c]) simp
  have g: "send_notification (recording ext) ''New Conversation-in-Progress''
               (''On device: '' @ device_type_value capture_file) ''conversation_progress'' progress =
             record_call ?ev ?g"
    by (simp add: recording_def)
  show ?case
  proof (cases r1)
    case None
    with Cons.prems c g have "send_progress_updates (recording ext) capture_file updates st1 = (r, st')"
      by simp
    from Cons.IH [OF this] f1 show ?thesis by (rule faithful_trans [rotated])
  next
    case (Some e)
    with Cons.prems c g f1 show ?thesis by simp
  qed
qed

lemma faithful_handle_detection_results:
  assumes "handle_detection_results (recording ext) task results st = (r, st')"
  shows "faithful st st'"
proof -
  let ?cf = "task_capture_file task"
  obtain r1 st1 where c: "create_segment_files (recording ext) ?cf (task_format task) (completed results) ([], []) st = (r1, st1)"
    by (cases "create_segment_files (recording ext) ?cf (task_format task) (completed results) ([], []) st")
  have f1: "faithful st st1"
    by (rule faithful_create_segment_files [OF c])
  show ?thesis
  proof (cases r1)
    case (Inl e)
    with assms c f1 show ?thesis by (simp add: handle_detection_results_def)
  next
    case (Inr lists)
    obtain convo_filepaths segment_files where lists: "lists = (convo_filepaths, segment_files)"
      by (cases lists)
    let ?ev = "Call_extract_conversations (task_detection_service task) (completed results) convo_filepaths"
    let ?g = "extract_conversations ext (task_detection_service task) (completed results) convo_filepaths"
    have g: "extract_conversations (recording ext) (task_detection_service task) (completed results) convo_filepaths =
               record_call ?ev ?g"
      by (simp add: recording_def)
    obtain r2 st2 where x: "call_ext ?ev (record_call ?ev ?g) st1 = (r2, st2)"
      by (cases "call_ext ?ev (record_call ?ev ?g) st1")
    have "faithful st1 st2"
      by (rule faithful_call_ext [OF x]) simp
    with f1 have f2: "faithful st st2"
      by (rule faithful_trans)
    show ?thesis
    proof (cases r2)
      case (Some e)
      with assms c Inr lists x g f2 show ?thesis by (simp add: handle_detection_results_def)
    next
      case None
      with assms c Inr lists x g have
        s: "send_progress_updates (recording ext) ?cf (progress_updates ?cf results)
              (process_completed (recording ext) ?cf segment_files st2) = (r, st')"
        by (simp add: handle_detection_results_def Let_def)
      have "faithful st2 (process_completed (recording ext) ?cf segment_files st2)"
        by (rule faithful_process_completed)
      with f2 have "faithful st (process_completed (recording ext) ?cf segment_files st2)"
        by (rule faithful_trans)
      then show ?thesis
        using faithful_send_progress_updates [OF s] by (rule faithful_trans)
    qed
  qed
qed

lemma faithful_run:
  assumes "run (recording ext) task st = (r, st')"
  shows "faithful st st'"
proof -
  let ?ev = "Call_detect_conversations (task_detection_service task) (task_audio_data task)
               (task_format task) (task_audio_data task = None)"
  let ?g = "detect_conversations ext (task_detection_service task) (task_audio_data task) (task_format task)
              (task_audio_data task = None)"
  have g: "detect_conversations (recording ext) (task_detection_service task) (task_audio_data task)
             (task_format task) (task_audio_data task = None) = record_call ?ev ?g"
    by (simp add: recording_def)
  obtain r1 st1 where c: "call_ext ?ev (record_call ?ev ?g) st = (r1, st1)"
    by (cases "call_ext ?ev (record_call ?ev ?g) st")
  have f1: "faithful st st1"
    by (rule faithful_call_ext [OF c]) simp
  show ?thesis
  proof (cases r1)
    case (Inl e)
    with assms c g f1 show ?thesis by (simp add: run_def Let_def)
  next
    case (Inr results)
    with assms c g have "handle_detection_results (recording ext) task results st1 = (r, st')"
      by (simp add: run_def Let_def)
    from f1 faithful_handle_detection_results [OF this] show ?thesis
      by (rule faithful_trans)
  qed
qed

lemma faithful_lookup_or_create_session:
  assumes "lookup_or_create_session (recording ext) capture_uuid timestamp device_type file_extension st = (r, st')"
  shows "faithful st st'"
proof (cases "capture_files_by_id st capture_uuid")
  case (Some capture_file)
  with assms show ?thesis
    by (cases "conversation_detection_service_by_id st capture_uuid")
      (auto simp: lookup_or_create_session_def intro: faithful_log faithful_refl)
next
  case None
  let ?ev = "Call_new_capture_file (capture_dir st) capture_uuid device_type timestamp file_extension"
  let ?g = "new_capture_file ext (capture_dir st) capture_uuid device_type timestamp file_extension"
  have g: "new_capture_file (recording ext) (capture_dir st) capture_uuid device_type timestamp file_extension =
             record_call ?ev ?g"
    by (simp add: recording_def)
  obtain r1 st1 where c: "call_ext ?ev (record_call ?ev ?g) st = (r1, st1)"
    by (cases "call_ext ?ev (record_call ?ev ?g) st")
  have f1: "faithful st st1"
    by (rule faithful_call_ext [OF c]) simp
  show ?thesis
  proof (cases r1)
    case (Inl e)
    with assms None c g f1 show ?thesis by (simp add: lookup_or_create_session_def)
  next
    case (Inr capture_file)
    let ?st2 = "st1\<lparr>capture_files_by_id := (capture_files_by_id st1)(capture_uuid \<mapsto> capture_file)\<rparr>"
    let ?ev2 = "Call_new_detection_service (filepath capture_file) (file_timestamp capture_file)"
    let ?g2 = "new_detection_service ext (filepath capture_file) (file_timestamp capture_file)"
    have g2: "new_detection_service (recording ext) (filepath capture_file) (file_timestamp capture_file) =
                record_call ?ev2 ?g2"
      by (simp add: recording_def)
    obtain r3 st3 where d: "call_ext ?ev2 (record_call ?ev2 ?g2) ?st2 = (r3, st3)"
      by (cases "call_ext ?ev2 (record_call ?ev2 ?g2) ?st2")
    have "faithful st1 ?st2" by (rule faithful_update)
    moreover have "faithful ?st2 st3"
      by (rule faithful_call_ext [OF d]) simp
    ultimately have "faithful st1 st3" by (rule faithful_trans)
    with f1 have f3: "faithful st st3" by (rule faithful_trans)
    show ?thesis
    proof (cases r3)
      case (Inl e)
      with assms None c g Inr d g2 f3 show ?thesis
        by (simp add: lookup_or_create_session_def Let_def)
    next
      case r3: (Inr detection_service)
      have "faithful st3 (st3\<lparr>conversation_detection_service_by_id :=
              (conversation_detection_service_by_id st3)(capture_uuid \<mapsto> detection_service)\<rparr>)"
        by (rule faithful_update)
      with f3 have "faithful st (st3\<lparr>conversation_detection_service_by_id :=
              (conversation_detection_service_by_id st3)(capture_uuid \<mapsto> detection_service)\<rparr>)"
        by (rule faithful_trans)
      with assms None c g Inr d g2 r3 show ?thesis
        by (simp add: lookup_or_create_session_def Let_def)
    qed
  qed
qed

lemma faithful_append_to_file:
  assumes "append_to_file (recording ext) write_wav_header capture_file content st = (r, st')"
  shows "faithful st st'"
proof (cases write_wav_header)
  case True
  let ?ev = "Call_append_to_wav_file (filepath capture_file) content 16000"
  have "append_to_wav_file (recording ext) (filepath capture_file) content 16000 =
          record_call ?ev (append_to_wav_file ext (filepath capture_file) content 16000)"
    by (simp add: recording_def)
  with assms True have "call_ext ?ev (record_call ?ev (append_to_wav_file ext (filepath capture_file) content 16000)) st = (r, st')"
    by (simp add: append_to_file_def)
  then show ?thesis by (rule faithful_call_ext) simp
next
  case False
  let ?ev = "Call_write_append (filepath capture_file) content"
  have "write_append (recording ext) (filepath capture_file) content =
          record_call ?ev (write_append ext (filepath capture_file) content)"
    by (simp add: recording_def)
  with assms False have "call_ext ?ev (record_call ?ev (write_append ext (filepath capture_file) content)) st = (r, st')"
    by (simp add: append_to_file_def)
  then show ?thesis by (rule faithful_call_ext) simp
qed

lemma faithful_upload_chunk:
  assumes "upload_chunk (recording ext) filename content capture_uuid timestamp device_type st =
             (Inr (JSONResponse ''Audio processed''), st')"
  shows "faithful st st'"
proof -
  from assms obtain e capture_file detection_service st1 bytes_written st2 where
    s: "lookup_or_create_session (recording ext) capture_uuid timestamp device_type
          (if e = ''pcm'' then ''wav'' else e) st = (Inr (capture_file, detection_service), st1)"
    and a: "append_to_file (recording ext) (e = ''pcm'') capture_file content st1 = (Inr bytes_written, st2)"
    and st': "st' = task_queue_put
                   \<lparr>task_capture_file = capture_file, task_detection_service = detection_service,
                    task_audio_data = Some content,
                    task_format = (if e = ''pcm'' then ''wav'' else e)\<rparr>
                   (log (Log_bytes_appended (filepath capture_file) bytes_written) st2)"
    by (rule upload_chunk_success)
  have "faithful st st1" by (rule faithful_lookup_or_create_session [OF s])
  moreover have "faithful st1 st2" by (rule faithful_append_to_file [OF a])
  ultimately have "faithful st st2" by (rule faithful_trans)
  moreover have "faithful st2 (log (Log_bytes_appended (filepath capture_file) bytes_written) st2)"
    by (rule faithful_log) simp
  ultimately have "faithful st (log (Log_bytes_appended (filepath capture_file) bytes_written) st2)"
    by (rule faithful_trans)
  then show ?thesis
    unfolding st' by (rule faithful_trans) (rule faithful_task_queue_put)
qed

lemma not_call_projections:
  "\<not> is_call ev \<Longrightarrow> detect_conversations_call ev = None"
  "\<not> is_call ev \<Longrightarrow> send_notification_call ev = None"
  "\<not> is_call ev \<Longrightarrow> append_to_wav_file_call ev = None"
  "\<not> is_call ev \<Longrightarrow> write_append_call ev = None"
  "\<not> is_call ev \<Longrightarrow> new_capture_file_call ev = None"
  "\<not> is_call ev \<Longrightarrow> process_conversation_call ev = None"
  by (cases ev; simp)+


lemma record_call_world:
  "fst (snd (record_call ev f w)) = snd (f (fst w))"
  "snd (snd (record_call ev f w)) = snd w @ [ev]"
  by (simp_all add: record_call_def split: prod.splits)

subsection \<open>Running a processing task: what reaches the detector and the notifier\<close>

text \<open>
  Claim C6: a task applies the detector exactly once, to its own bytes and format and
  with \<open>capture_finished\<close> true exactly when the task carries no bytes: this is the call
  that the detector itself records, whatever it and the other collaborators do, and it
  is the one call of the detector in the trace. Finalizing is the same kind of task: the
  one that \<open>process_capture\<close> queues carries no bytes.
\<close>

theorem run_detect_conversations_call:
  "detect_conversations_calls (received (snd (run (recording ext) task st))) =
     detect_conversations_calls (received st) @
       [(task_detection_service task, task_audio_data task, task_format task, task_audio_data task = None)]
   \<and> detect_conversations_calls (trace (snd (run ext' task st1))) =
     detect_conversations_calls (trace st1) @
       [(task_detection_service task, task_audio_data task, task_format task, task_audio_data task = None)]
   \<and> (process_capture ext' capture_uuid st0 = (Inr response, st0') \<longrightarrow>
        (\<exists>queued. task_queue st0' = task_queue st0 @ [queued] \<and> task_audio_data queued = None))"
proof (intro conjI)
  let ?call = "(task_detection_service task, task_audio_data task, task_format task, task_audio_data task = None)"
  obtain r st' where run: "run (recording ext) task st = (r, st')"
    by (cases "run (recording ext) task st")
  have t: "List.map_filter detect_conversations_call (trace st') =
             List.map_filter detect_conversations_call (trace st) @ [?call]"
    using run_detect_conversations_trace [of "recording ext" task st] run
    by (simp add: detect_conversations_calls_def)
  have "List.map_filter detect_conversations_call (received st') =
          List.map_filter detect_conversations_call (received st) @ [?call]"
    by (rule faithful_received [OF faithful_run [OF run] not_call_projections(1) t])
  with run show "detect_conversations_calls (received (snd (run (recording ext) task st))) =
     detect_conversations_calls (received st) @ [?call]"
    by (simp add: detect_conversations_calls_def)
next
  show "detect_conversations_calls (trace (snd (run ext' task st1))) =
     detect_conversations_calls (trace st1) @
       [(task_detection_service task, task_audio_data task, task_format task, task_audio_data task = None)]"
    using run_detect_conversations_trace [of ext' task st1] by simp
next
  show "process_capture ext' capture_uuid st0 = (Inr response, st0') \<longrightarrow>
        (\<exists>queued. task_queue st0' = task_queue st0 @ [queued] \<and> task_audio_data queued = None)"
    using run_detect_conversations_trace [of ext' task st1 capture_uuid st0 response st0'] by simp
qed


subsection \<open>Uploading raw samples: what reaches the file collaborators\<close>

lemma lookup_or_create_session_new_capture_file:
  assumes "lookup_or_create_session ext capture_uuid timestamp device_type file_extension st = (Inr session, st')"
  shows "new_capture_file_calls (trace st') =
           new_capture_file_calls (trace st) @
             (if capture_files_by_id st capture_uuid = None
              then [(capture_dir st, capture_uuid, device_type, timestamp, file_extension)] else [])"
  using assms
  by (auto simp: lookup_or_create_session_def call_ext_eq log_def Let_def
        new_capture_file_calls_def map_filter_append map_filter_single
      split: option.splits prod.splits sum.splits)

lemma append_to_file_new_capture_file:
  assumes "append_to_file ext write_wav_header capture_file content st = (r, st')"
  shows "new_capture_file_calls (trace st') = new_capture_file_calls (trace st)"
  using assms
  by (auto simp: append_to_file_def call_ext_eq new_capture_file_calls_def map_filter_append map_filter_single
      split: if_splits)

lemma upload_chunk_new_capture_file_trace:
  assumes "file_extension_of filename = Inr uploaded_extension"
    and "upload_chunk ext filename content capture_uuid timestamp device_type st =
           (Inr (JSONResponse ''Audio processed''), st')"
  shows "new_capture_file_calls (trace st') =
           new_capture_file_calls (trace st) @
             (if capture_files_by_id st capture_uuid = None
              then [(capture_dir st, capture_uuid, device_type, timestamp,
                     if uploaded_extension = ''pcm'' then ''wav'' else uploaded_extension)]
              else [])"
proof -
  from assms(2) obtain e capture_file detection_service st1 bytes_written st2 where
    e: "file_extension_of filename = Inr e"
    and s: "lookup_or_create_session ext capture_uuid timestamp device_type
          (if e = ''pcm'' then ''wav'' else e) st = (Inr (capture_file, detection_service), st1)"
    and a: "append_to_file ext (e = ''pcm'') capture_file content st1 = (Inr bytes_written, st2)"
    and st': "st' = task_queue_put
                   \<lparr>task_capture_file = capture_file, task_detection_service = detection_service,
                    task_audio_data = Some content,
                    task_format = (if e = ''pcm'' then ''wav'' else e)\<rparr>
                   (log (Log_bytes_appended (filepath capture_file) bytes_written) st2)"
    by (rule upload_chunk_success)
  from e assms(1) have [simp]: "e = uploaded_extension" by simp
  have "new_capture_file_calls (trace st') = new_capture_file_calls (trace st2)"
    by (simp add: st' task_queue_put_def log_def new_capture_file_calls_def map_filter_append map_filter_single)
  with lookup_or_create_session_new_capture_file [OF s] append_to_file_new_capture_file [OF a]
  show ?thesis by simp
qed

text \<open>
  Claim C4, as the code has it: \<open>write_wav_header\<close> depends on the extension of the
  upload only. Every successful upload of a \<open>pcm\<close> file is handled under the format
  \<open>wav\<close> (the queued task has it, and so has the capture file when the upload creates
  one) and its bytes are handed to \<^verbatim>\<open>append_to_wav_file\<close> at 16000 Hz, whether the
  session is new or already holds data; every other successful upload keeps its format
  and is appended by a plain write. The calls are those that the collaborators
  themselves record; the trace shows the same.
\<close>

theorem upload_chunk_write_wav_header:
  assumes "file_extension_of filename = Inr uploaded_extension"
    and "upload_chunk (recording ext) filename content capture_uuid timestamp device_type st =
           (Inr (JSONResponse ''Audio processed''), st')"
  shows "\<exists>task. task_queue st' = task_queue st @ [task] \<and>
           task_format task = (if uploaded_extension = ''pcm'' then ''wav'' else uploaded_extension) \<and>
           new_capture_file_calls (received st') =
             new_capture_file_calls (received st) @
               (if capture_files_by_id st capture_uuid = None
                then [(capture_dir st, capture_uuid, device_type, timestamp,
                       if uploaded_extension = ''pcm'' then ''wav'' else uploaded_extension)]
                else []) \<and>
           append_to_wav_file_calls (received st') = append_to_wav_file_calls (received st) @
             (if uploaded_extension = ''pcm'' then [(filepath (task_capture_file task), content, 16000)] else []) \<and>
           write_append_calls (received st') = write_append_calls (received st) @
             (if uploaded_extension = ''pcm'' then [] else [(filepath (task_capture_file task), content)]) \<and>
           append_to_wav_file_calls (trace st') = append_to_wav_file_calls (trace st) @
             (if uploaded_extension = ''pcm'' then [(filepath (task_capture_file task), content, 16000)] else []) \<and>
           write_append_calls (trace st') = write_append_calls (trace st) @
             (if uploaded_extension = ''pcm'' then [] else [(filepath (task_capture_file task), content)])"
proof -
  let ?fe = "if uploaded_extension = ''pcm'' then ''wav'' else uploaded_extension"
  from upload_chunk_appends_trace [OF assms] obtain task where
    q: "task_queue st' = task_queue st @ [task]" and f: "task_format task = ?fe"
    and w: "append_to_wav_file_calls (trace st') = append_to_wav_file_calls (trace st) @
             (if uploaded_extension = ''pcm'' then [(filepath (task_capture_file task), content, 16000)] else [])"
    and p: "write_append_calls (trace st') = write_append_calls (trace st) @
             (if uploaded_extension = ''pcm'' then [] else [(filepath (task_capture_file task), content)])"
    by blast
  note n = upload_chunk_new_capture_file_trace [OF assms]
  note fa = faithful_upload_chunk [OF assms(2)]
  have rn: "new_capture_file_calls (received st') =
             new_capture_file_calls (received st) @
               (if capture_files_by_id st capture_uuid = None
                then [(capture_dir st, capture_uuid, device_type, timestamp, ?fe)] else [])"
    unfolding new_capture_file_calls_def
    by (rule faithful_received [OF fa not_call_projections(5) n [unfolded new_capture_file_calls_def]])
  have rw: "append_to_wav_file_calls (received st') = append_to_wav_file_calls (received st) @
             (if uploaded_extension = ''pcm'' then [(filepath (task_capture_file task), content, 16000)] else [])"
    unfolding append_to_wav_file_calls_def
    by (rule faithful_received [OF fa not_call_projections(3) w [unfolded append_to_wav_file_calls_def]])
  have rp: "write_append_calls (received st') = write_append_calls (received st) @
             (if uploaded_extension = ''pcm'' then [] else [(filepath (task_capture_file task), content)])"
    unfolding write_append_calls_def
    by (rule faithful_received [OF fa not_call_projections(4) p [unfolded write_append_calls_def]])
  from q f rn rw rp w p show ?thesis by blast
qed

subsection \<open>After a disconnect\<close>
















theorem run_detect_conversations_call_witness:
  "detect_conversations_calls
     (received (snd (run (recording one_file_externals)
        \<lparr>task_capture_file = abc_capture_file, task_detection_service = 7,
         task_audio_data = None, task_format = ''wav''\<rparr> recording_state))) =
     [(7, None, ''wav'', True)]
   \<and> (\<exists>queued. task_queue finalized_state = task_queue session_state @ [queued] \<and> task_audio_data queued = None)"
  using run_detect_conversations_call [where ext = one_file_externals
      and task = "\<lparr>task_capture_file = abc_capture_file, task_detection_service = 7,
                    task_audio_data = None, task_format = ''wav''\<rparr>"
      and st = recording_state and ext' = one_file_externals and ?st1.0 = example_state
      and capture_uuid = "''abc''" and ?st0.0 = session_state
      and response = "JSONResponse ''Conversation processed''" and st0' = finalized_state]
  by (simp add: example_process_capture) (simp add: recording_state_def received_def detect_conversations_calls_def)

lemma recording_existing_session:
  "lookup_or_create_session (recording example_externals) ''abc'' ''20240101'' ''ios''
     (if ''pcm'' = ''pcm'' then ''wav'' else ''pcm'') recording_session_state =
     (Inr (abc_capture_file, 7), recording_session_state)"
  by (simp add: lookup_or_create_session_def recording_session_state_def recording_state_def)

lemma recording_append_to_wav_file:
  "append_to_file (recording example_externals) (''pcm'' = ''pcm'') abc_capture_file [3, 4] recording_session_state =
     (Inr 2,
      recording_session_state
        \<lparr>trace := [Call_append_to_wav_file ''captures/abc.wav'' [3, 4] 16000],
         world := ((), [Call_append_to_wav_file ''captures/abc.wav'' [3, 4] 16000])\<rparr>)"
  by (simp add: append_to_file_def call_ext_def recording_def record_call_def example_externals_def
        abc_capture_file_def recording_session_state_def recording_state_def)

lemma recording_second_upload:
  "upload_chunk (recording example_externals) (Some ''chunk2.pcm'') [3, 4] ''abc'' ''20240101'' ''ios''
     recording_session_state = (Inr (JSONResponse ''Audio processed''), recording_second_state)"
proof -
  have "upload_chunk (recording example_externals) (Some ''chunk2.pcm'') [3, 4] ''abc'' ''20240101'' ''ios''
          recording_session_state =
          (Inr (JSONResponse ''Audio processed''),
            task_queue_put
              \<lparr>task_capture_file = abc_capture_file, task_detection_service = 7,
               task_audio_data = Some [3, 4], task_format = (if ''pcm'' = ''pcm'' then ''wav'' else ''pcm'')\<rparr>
              (log (Log_bytes_appended (filepath abc_capture_file) 2)
                 (recording_session_state
                    \<lparr>trace := [Call_append_to_wav_file ''captures/abc.wav'' [3, 4] 16000],
                     world := ((), [Call_append_to_wav_file ''captures/abc.wav'' [3, 4] 16000])\<rparr>)))"
    by (rule upload_chunk_body_supported [OF extension_pcm2 supp_pcm recording_existing_session
          recording_append_to_wav_file])
  also have "\<dots> = (Inr (JSONResponse ''Audio processed''), recording_second_state)"
    by (simp add: task_queue_put_def log_def recording_second_state_def recording_session_state_def
          recording_state_def abc_capture_file_def)
  finally show ?thesis .
qed

theorem upload_chunk_write_wav_header_witness:
  "\<exists>task. task_queue recording_second_state = task_queue recording_session_state @ [task] \<and>
     task_format task = ''wav'' \<and>
     new_capture_file_calls (received recording_second_state) =
       new_capture_file_calls (received recording_session_state) \<and>
     append_to_wav_file_calls (received recording_second_state) =
       append_to_wav_file_calls (received recording_session_state) @
         [(filepath (task_capture_file task), [3, 4], 16000)] \<and>
     write_append_calls (received recording_second_state) = write_append_calls (received recording_session_state)"
proof -
  have c: "capture_files_by_id recording_session_state ''abc'' \<noteq> None"
    by (simp add: recording_session_state_def)
  from upload_chunk_write_wav_header [OF extension_pcm2 recording_second_upload] c
  show ?thesis by auto
qed

end
